theory Spec2Isabelle
  imports Main
begin

section \<open>Strings\<close>

text \<open>
  Python \<^verbatim>\<open>str\<close> values are modelled as \<^typ>\<open>string\<close>: a character is a code point
  below 256, the length of a string is its number of characters, and a text with other
  characters has no counterpart here. The case conversions below are the ASCII part of
  \<^verbatim>\<open>str.upper\<close> and \<^verbatim>\<open>str.lower\<close>: a character outside \<^verbatim>\<open>A-Z\<close>/\<^verbatim>\<open>a-z\<close> is left as it
  is.
\<close>

definition upper_char :: "char \<Rightarrow> char" where
  "upper_char c =
     (case map_of (zip ''abcdefghijklmnopqrstuvwxyz'' ''ABCDEFGHIJKLMNOPQRSTUVWXYZ'') c of
        Some u \<Rightarrow> u | None \<Rightarrow> c)"

definition lower_char :: "char \<Rightarrow> char" where
  "lower_char c =
     (case map_of (zip ''ABCDEFGHIJKLMNOPQRSTUVWXYZ'' ''abcdefghijklmnopqrstuvwxyz'') c of
        Some l \<Rightarrow> l | None \<Rightarrow> c)"

definition upper :: "string \<Rightarrow> string" where
  "upper s = map upper_char s"

definition lower :: "string \<Rightarrow> string" where
  "lower s = map lower_char s"

text \<open>\<^verbatim>\<open>sub in s\<close> on two strings: \<open>sub\<close> occurs in \<open>s\<close> as a contiguous run.\<close>

fun starts_with :: "string \<Rightarrow> string \<Rightarrow> bool" where
  "starts_with [] s = True"
| "starts_with (a # as) [] = False"
| "starts_with (a # as) (c # cs) = (a = c \<and> starts_with as cs)"

fun contains :: "string \<Rightarrow> string \<Rightarrow> bool" where
  "contains sub [] = (sub = [])"
| "contains sub (c # cs) = (starts_with sub (c # cs) \<or> contains sub cs)"

section \<open>Deduplicator (dedup/deduplicator.py)\<close>

text \<open>
  An email handed to the deduplicator is a dict with the keys \<^verbatim>\<open>message_id\<close> and
  \<^verbatim>\<open>pnr\<close>; whatever other keys it has travel in the record's extension. A \<^verbatim>\<open>pnr\<close> that
  is missing or \<^verbatim>\<open>None\<close> is \<open>None\<close> here.
\<close>

record email =
  message_id :: string
  pnr :: "string option"

record deduplicator =
  fuzzy_threshold :: int

text \<open>
  \<^verbatim>\<open>fuzz.ratio\<close> is a function of the fuzzywuzzy library, not of this repository; the
  model takes it as the parameter \<open>ratio\<close>. \<^verbatim>\<open>not pnr\<close> holds of \<^verbatim>\<open>None\<close> and of the
  empty string.
\<close>

definition are_pnrs_duplicate ::
  "(string \<Rightarrow> string \<Rightarrow> int) \<Rightarrow> deduplicator \<Rightarrow> string option \<Rightarrow> string option \<Rightarrow> bool" where
  "are_pnrs_duplicate ratio self pnr1 pnr2 =
     (case (pnr1, pnr2) of
        (Some a, Some b) \<Rightarrow>
          if a = [] \<or> b = [] then False
          else if upper a = upper b then True
          else fuzzy_threshold self \<le> ratio (upper a) (upper b)
      | _ \<Rightarrow> False)"

text \<open>
  \<^verbatim>\<open>get_unique_emails\<close>: the loop carries \<^verbatim>\<open>seen_pnrs\<close> (a Python set) and
  \<^verbatim>\<open>unique_emails\<close>. The inner loop over the set only computes whether some seen
  reference matches (it breaks at the first one), so the order in which Python walks
  the set does not reach the result.
\<close>

definition email_pnr_upper :: "'a email_scheme \<Rightarrow> string option" where
  "email_pnr_upper e =
     (case pnr e of None \<Rightarrow> None | Some s \<Rightarrow> if s = [] then None else Some (upper s))"

fun unique_loop ::
  "(string \<Rightarrow> string \<Rightarrow> int) \<Rightarrow> deduplicator \<Rightarrow> string set \<times> 'a email_scheme list
     \<Rightarrow> 'a email_scheme list \<Rightarrow> string set \<times> 'a email_scheme list" where
  "unique_loop ratio self (seen_pnrs, unique_emails) [] = (seen_pnrs, unique_emails)"
| "unique_loop ratio self (seen_pnrs, unique_emails) (e # es) =
     (case email_pnr_upper e of
        None \<Rightarrow> unique_loop ratio self (seen_pnrs, unique_emails @ [e]) es
      | Some p \<Rightarrow>
          if p = [] then unique_loop ratio self (seen_pnrs, unique_emails @ [e]) es
          else if \<exists>seen_pnr \<in> seen_pnrs. are_pnrs_duplicate ratio self (Some p) (Some seen_pnr)
          then unique_loop ratio self (seen_pnrs, unique_emails) es
          else unique_loop ratio self (insert p seen_pnrs, unique_emails @ [e]) es)"

definition get_unique_emails ::
  "(string \<Rightarrow> string \<Rightarrow> int) \<Rightarrow> deduplicator \<Rightarrow> 'a email_scheme list \<Rightarrow> 'a email_scheme list" where
  "get_unique_emails ratio self emails = snd (unique_loop ratio self ({}, []) emails)"

text \<open>
  \<^verbatim>\<open>find_duplicates\<close>. A list of message ids is a Python object that two dicts can
  hold at once: \<^verbatim>\<open>duplicates[known_pnr] = msg_ids\<close> stores the very list that
  \<^verbatim>\<open>processed_pnrs[known_pnr]\<close> holds, and a later \<^verbatim>\<open>msg_ids.append\<close> is seen through
  both. The model keeps the lists in a store indexed by address; both dicts map a
  reference to an address, in insertion order.
\<close>

record dup_state =
  heap :: "nat \<Rightarrow> string list"
  next_addr :: nat
  processed_pnrs :: "(string \<times> nat) list"
  duplicates :: "(string \<times> nat) list"

fun dict_set :: "'k \<Rightarrow> 'v \<Rightarrow> ('k \<times> 'v) list \<Rightarrow> ('k \<times> 'v) list" where
  "dict_set k v [] = [(k, v)]"
| "dict_set k v ((k', v') # d) = (if k' = k then (k, v) # d else (k', v') # dict_set k v d)"

definition dict_has :: "'k \<Rightarrow> ('k \<times> 'v) list \<Rightarrow> bool" where
  "dict_has k d = (map_of d k \<noteq> None)"

text \<open>
  The inner loop over \<^verbatim>\<open>list(processed_pnrs.items())\<close>: \<open>None\<close> when no known
  reference matched (\<^verbatim>\<open>found_duplicate\<close> stays false), the state after the first match
  otherwise.
\<close>

fun scan_known ::
  "(string \<Rightarrow> string \<Rightarrow> int) \<Rightarrow> deduplicator \<Rightarrow> string \<Rightarrow> string \<Rightarrow> (string \<times> nat) list
     \<Rightarrow> dup_state \<Rightarrow> dup_state option" where
  "scan_known ratio self pnr_upper mid [] st = None"
| "scan_known ratio self pnr_upper mid ((known_pnr, msg_ids) # items) st =
     (if are_pnrs_duplicate ratio self (Some pnr_upper) (Some known_pnr)
      then Some (st\<lparr>heap := (heap st)(msg_ids := heap st msg_ids @ [mid]),
                    duplicates := (if dict_has known_pnr (duplicates st) then duplicates st
                                   else duplicates st @ [(known_pnr, msg_ids)])\<rparr>)
      else scan_known ratio self pnr_upper mid items st)"

fun find_loop ::
  "(string \<Rightarrow> string \<Rightarrow> int) \<Rightarrow> deduplicator \<Rightarrow> dup_state \<Rightarrow> 'a email_scheme list \<Rightarrow> dup_state" where
  "find_loop ratio self st [] = st"
| "find_loop ratio self st (e # es) =
     (case pnr e of
        None \<Rightarrow> find_loop ratio self st es
      | Some p \<Rightarrow>
          if p = [] then find_loop ratio self st es
          else
            (case scan_known ratio self (upper p) (message_id e) (processed_pnrs st) st of
               Some st' \<Rightarrow> find_loop ratio self st' es
             | None \<Rightarrow>
                 find_loop ratio self
                   (st\<lparr>heap := (heap st)(next_addr st := [message_id e]),
                       next_addr := Suc (next_addr st),
                       processed_pnrs := dict_set (upper p) (next_addr st) (processed_pnrs st)\<rparr>)
                   es))"

definition find_duplicates ::
  "(string \<Rightarrow> string \<Rightarrow> int) \<Rightarrow> deduplicator \<Rightarrow> 'a email_scheme list \<Rightarrow> (string \<times> string list) list" where
  "find_duplicates ratio self emails =
     (let st = find_loop ratio self
                 \<lparr>heap = (\<lambda>_. []), next_addr = 0, processed_pnrs = [], duplicates = []\<rparr> emails
      in map (\<lambda>(p, ids). (p, heap st ids))
           (filter (\<lambda>(p, ids). 1 < length (heap st ids)) (duplicates st)))"

text \<open>
  A similarity to run the examples with: \<open>2 * M / T\<close> as a rounded percentage, \<open>M\<close> the
  length of a longest common subsequence and \<open>T\<close> the two lengths together, with the
  library's two shortcuts (equal strings give 100, an empty string gives 0).
\<close>

fun lcs :: "string \<Rightarrow> string \<Rightarrow> nat" where
  "lcs [] ys = 0"
| "lcs (x # xs) [] = 0"
| "lcs (x # xs) (y # ys) =
     (if x = y then Suc (lcs xs ys) else max (lcs (x # xs) ys) (lcs xs (y # ys)))"

definition round_half_even :: "nat \<Rightarrow> nat \<Rightarrow> nat" where
  "round_half_even n d =
     (let q = n div d; r = n mod d
      in if 2 * r < d then q else if d < 2 * r then q + 1 else if even q then q else q + 1)"

definition lcs_ratio :: "string \<Rightarrow> string \<Rightarrow> int" where
  "lcs_ratio a b =
     (if a = b then 100
      else if a = [] \<or> b = [] then 0
      else int (round_half_even (200 * lcs a b) (length a + length b)))"

definition default_deduplicator :: deduplicator where
  "default_deduplicator = \<lparr>fuzzy_threshold = 95\<rparr>"


section \<open>Library values: documents, JSON, patterns\<close>

text \<open>
  What \<^verbatim>\<open>BeautifulSoup(html, 'lxml')\<close> returns is a tree of tags and strings. A tag has
  a name, attributes and contents; the soup object itself is the root tag. None of the
  attributes the code reads (\<^verbatim>\<open>type\<close>, \<^verbatim>\<open>itemtype\<close>, \<^verbatim>\<open>itemprop\<close>, \<^verbatim>\<open>content\<close>) is
  multi-valued, so an attribute value is one string. A string of the tree is an object
  of \<^verbatim>\<open>NavigableString\<close> or of one of its subclasses: the parser gives the text of a
  \<^verbatim>\<open>script\<close> tag the class \<^verbatim>\<open>Script\<close>, that of a \<^verbatim>\<open>style\<close> tag \<^verbatim>\<open>Stylesheet\<close>, a comment
  \<^verbatim>\<open>Comment\<close>, and so on.
\<close>

datatype string_class =
    NavigableString
  | CData
  | Comment
  | Declaration
  | Doctype
  | ProcessingInstruction
  | Script
  | Stylesheet
  | TemplateString
  | RubyTextString
  | RubyParenthesisString

datatype node =
    Text string_class string
  | Element string "(string \<times> string) list" "node list"

text \<open>All tags and strings below a node, in document order (the node itself left out).\<close>

fun descendants :: "node \<Rightarrow> node list" where
  "descendants (Text k s) = []"
| "descendants (Element name attrs contents) = concat (map (\<lambda>c. c # descendants c) contents)"

text \<open>\<^verbatim>\<open>tag.get(key)\<close>.\<close>

fun get_attr :: "node \<Rightarrow> string \<Rightarrow> string option" where
  "get_attr (Text k s) key = None"
| "get_attr (Element name attrs contents) key = map_of attrs key"

text \<open>
  \<^verbatim>\<open>tag.find_all(names, attr=value)\<close> and \<^verbatim>\<open>tag.find(...)\<close>: the tags below \<open>tag\<close> with
  one of the names and, when an attribute is asked for, exactly that value.
\<close>

fun tag_matches :: "string list \<Rightarrow> (string \<times> string) option \<Rightarrow> node \<Rightarrow> bool" where
  "tag_matches names attr (Text k s) = False"
| "tag_matches names attr (Element name attrs contents) =
     (name \<in> set names \<and> (case attr of None \<Rightarrow> True | Some (k, v) \<Rightarrow> map_of attrs k = Some v))"

definition find_all :: "string list \<Rightarrow> (string \<times> string) option \<Rightarrow> node \<Rightarrow> node list" where
  "find_all names attr tag = filter (tag_matches names attr) (descendants tag)"

definition find_tag :: "string list \<Rightarrow> (string \<times> string) option \<Rightarrow> node \<Rightarrow> node option" where
  "find_tag names attr tag = (case find_all names attr tag of [] \<Rightarrow> None | t # _ \<Rightarrow> Some t)"

text \<open>
  \<^verbatim>\<open>tag.string\<close>: the only child when it is a string (of any class), the \<^verbatim>\<open>.string\<close> of
  the only child when it is a tag, \<^verbatim>\<open>None\<close> when the tag has no child or several.
\<close>

fun node_string :: "node \<Rightarrow> string option" where
  "node_string (Text k s) = Some s"
| "node_string (Element name attrs []) = None"
| "node_string (Element name attrs [c]) = node_string c"
| "node_string (Element name attrs (c # d # cs)) = None"

text \<open>
  What \<^verbatim>\<open>json.loads\<close> returns. A dict is its items in order, with distinct keys; the
  code never looks into a number, whose payload stands for any numeric value.
\<close>

datatype json =
    JNull
  | JBool bool
  | JNum int
  | JStr string
  | JArr "json list"
  | JObj "(string \<times> json) list"

datatype exn = TypeError | AttributeError | JSONDecodeError | KeyError

text \<open>
  The regular expressions of the source, as syntax trees. Every repetition in them is
  over a single character class, so \<open>Rep cls m n\<close> (at least \<open>m\<close>, at most \<open>n\<close> when
  given, greedy) is the only repetition. \<open>Group\<close> is a capturing group, \<open>WordB\<close> is
  \<^verbatim>\<open>\b\<close>. \<open>Wide h\<close> is the one character whose code point is \<open>h\<close> in hexadecimal, for the
  two characters of the patterns that lie beyond 255. A class lists the characters
  below 256 that it has. A pattern is a tree with its IGNORECASE flag.
\<close>

datatype cls = In_cls string | Not_cls string

datatype rx =
    Lit string
  | Wide string
  | Rep cls nat "nat option"
  | Then rx rx
  | Or rx rx
  | Group rx
  | WordB

datatype pattern = Pattern bool rx

definition upper_letters :: string where
  "upper_letters = ''ABCDEFGHIJKLMNOPQRSTUVWXYZ''"

definition digits :: string where
  "digits = ''0123456789''"

text \<open>
  The characters below 256 that \<^verbatim>\<open>str.isspace\<close> accepts, which are those of \<^verbatim>\<open>\s\<close> in a
  \<^verbatim>\<open>str\<close> pattern: space, tab, line feed, vertical tab, form feed, carriage return, the
  four separators 0x1C to 0x1F, the next-line character 0x85 and the no-break space
  0xA0.
\<close>

definition whitespace :: string where
  "whitespace = [CHR '' '', CHR 0x09, CHR 0x0A, CHR 0x0B, CHR 0x0C, CHR 0x0D,
                 CHR 0x1C, CHR 0x1D, CHR 0x1E, CHR 0x1F, CHR 0x85, CHR 0xA0]"

definition dot :: cls where
  "dot = Not_cls [CHR 0x0A]"

text \<open>
  The libraries are not code of this repository: the model takes them as a record of
  functions, and every property below holds for whatever they compute. So are the two
  methods of \<^verbatim>\<open>str\<close> that the table strategy applies to the text of a body.
  \<^item> \<open>bs4 html\<close> is \<^verbatim>\<open>BeautifulSoup(html, 'lxml')\<close>, which builds a tree for every text;
  \<^item> \<open>get_text tag\<close> is \<^verbatim>\<open>tag.get_text()\<close>: strings below the tag, joined. Which strings
    the library joins depends on the name of the tag and on the classes of the strings,
    and has changed between its versions;
  \<^item> \<open>str_strip s\<close> is \<^verbatim>\<open>s.strip()\<close> and \<open>str_lower s\<close> is \<^verbatim>\<open>s.lower()\<close>;
  \<^item> \<open>json_loads s\<close> is \<^verbatim>\<open>json.loads(s)\<close>, \<open>None\<close> when it raises \<^verbatim>\<open>JSONDecodeError\<close>;
  \<^item> \<open>re_search p s\<close> says whether \<^verbatim>\<open>re.search(p, s)\<close> finds a match;
  \<^item> \<open>re_group1 p s\<close> is \<^verbatim>\<open>group(1)\<close> of that match, \<open>re_group2 p s\<close> is
    \<^verbatim>\<open>(group(1), group(2))\<close>, \<open>None\<close> when there is no match;
  \<^item> \<open>re_findall p s\<close> is \<^verbatim>\<open>re.findall(p, s)\<close>;
  \<^item> \<open>sql_bind i v\<close> is what \<^verbatim>\<open>sqlite3\<close> does with the value \<open>v\<close> bound as the \<open>i\<close>-th
    parameter to a \<^verbatim>\<open>TEXT\<close> column: it raises (\<open>Inl\<close>, with the text of the exception) or
    stores a text (\<open>None\<close> for NULL).
\<close>

record pylib =
  bs4 :: "string \<Rightarrow> node"
  get_text :: "node \<Rightarrow> string"
  str_strip :: "string \<Rightarrow> string"
  str_lower :: "string \<Rightarrow> string"
  json_loads :: "string \<Rightarrow> json option"
  re_search :: "pattern \<Rightarrow> string \<Rightarrow> bool"
  re_group1 :: "pattern \<Rightarrow> string \<Rightarrow> string option"
  re_group2 :: "pattern \<Rightarrow> string \<Rightarrow> (string \<times> string) option"
  re_findall :: "pattern \<Rightarrow> string \<Rightarrow> string list"
  sql_bind :: "nat \<Rightarrow> json \<Rightarrow> string + string option"

section \<open>Classifier (parsers/classifier.py)\<close>

text \<open>
  \<^verbatim>\<open>CONFIRMATION_PATTERNS\<close>, each with \<^verbatim>\<open>(?i)\<close>:
  \<^verbatim>\<open>(flight|booking|reservation).*confirm(ed|ation)\<close>, \<^verbatim>\<open>confirm.*flight\<close>,
  \<^verbatim>\<open>itinerary.*confirm\<close>, \<^verbatim>\<open>booking.*confirm\<close>.
\<close>

definition CONFIRMATION_PATTERNS :: "pattern list" where
  "CONFIRMATION_PATTERNS =
     [Pattern True
        (Then (Group (Or (Lit ''flight'') (Or (Lit ''booking'') (Lit ''reservation''))))
           (Then (Rep dot 0 None)
              (Then (Lit ''confirm'') (Group (Or (Lit ''ed'') (Lit ''ation'')))))),
      Pattern True (Then (Lit ''confirm'') (Then (Rep dot 0 None) (Lit ''flight''))),
      Pattern True (Then (Lit ''itinerary'') (Then (Rep dot 0 None) (Lit ''confirm''))),
      Pattern True (Then (Lit ''booking'') (Then (Rep dot 0 None) (Lit ''confirm'')))]"

text \<open>
  \<^verbatim>\<open>EXCLUSION_PATTERNS\<close>, each with \<^verbatim>\<open>(?i)\<close>: \<^verbatim>\<open>cancel\<close>, \<^verbatim>\<open>check[\s-]*in\<close>,
  \<^verbatim>\<open>(change|update|modif)\<close>, \<^verbatim>\<open>reminder\<close>, \<^verbatim>\<open>expired\<close>.
\<close>

definition EXCLUSION_PATTERNS :: "pattern list" where
  "EXCLUSION_PATTERNS =
     [Pattern True (Lit ''cancel''),
      Pattern True
        (Then (Lit ''check'') (Then (Rep (In_cls (whitespace @ ''-'')) 0 None) (Lit ''in''))),
      Pattern True (Group (Or (Lit ''change'') (Or (Lit ''update'') (Lit ''modif'')))),
      Pattern True (Lit ''reminder''),
      Pattern True (Lit ''expired'')]"

definition AIRLINE_DOMAINS :: "string list" where
  "AIRLINE_DOMAINS =
     [''united.com'', ''delta.com'', ''aa.com'', ''americanairlines.com'',
      ''southwest.com'', ''luv.southwest.com'', ''jetblue.com'',
      ''alaskaair.com'', ''spirit.com'', ''frontier.com'',
      ''expedia.com'', ''welcomemail.expedia.com'', ''kayak.com'', ''priceline.com'']"

text \<open>
  The dict \<^verbatim>\<open>email_data\<close> that \<^verbatim>\<open>extract_email_content\<close> builds. (Its message id is
  \<open>ed_message_id\<close> here: \<open>message_id\<close> names the deduplicator's key.)
\<close>

record email_data =
  ed_message_id :: string
  thread_id :: "string option"
  subject :: string
  from_email :: string
  msg_date :: string
  html_content :: string
  text_content :: string

text \<open>
  \<^verbatim>\<open>'Confirmed' in status\<close>: a substring test on a string, membership in a list, a key
  test on a dict, and \<^verbatim>\<open>TypeError\<close> (\<open>None\<close> here) on \<^verbatim>\<open>None\<close>, a number or a boolean.
\<close>

fun py_in :: "string \<Rightarrow> json \<Rightarrow> bool option" where
  "py_in sub (JStr s) = Some (contains sub s)"
| "py_in sub (JArr xs) = Some (JStr sub \<in> set xs)"
| "py_in sub (JObj kvs) = Some (sub \<in> fst ` set kvs)"
| "py_in sub JNull = None"
| "py_in sub (JBool b) = None"
| "py_in sub (JNum n) = None"

text \<open>
  The test both branches of \<^verbatim>\<open>has_flight_reservation_schema\<close> make on one JSON value:
  it is a dict, its \<^verbatim>\<open>@type\<close> is \<^verbatim>\<open>FlightReservation\<close>, and \<^verbatim>\<open>Confirmed\<close> is in its
  \<^verbatim>\<open>reservationStatus\<close> (\<^verbatim>\<open>''\<close> when the key is missing).
\<close>

fun check_item :: "json \<Rightarrow> exn + bool" where
  "check_item (JObj kvs) =
     (if map_of kvs ''@type'' = Some (JStr ''FlightReservation'')
      then (case py_in ''Confirmed''
                   (case map_of kvs ''reservationStatus'' of Some st \<Rightarrow> st | None \<Rightarrow> JStr [])
            of None \<Rightarrow> Inl TypeError | Some b \<Rightarrow> Inr b)
      else Inr False)"
| "check_item j = Inr False"

fun check_items :: "json list \<Rightarrow> exn + bool" where
  "check_items [] = Inr False"
| "check_items (item # items) =
     (case check_item item of
        Inl e \<Rightarrow> Inl e
      | Inr True \<Rightarrow> Inr True
      | Inr False \<Rightarrow> check_items items)"

fun check_data :: "json \<Rightarrow> exn + bool" where
  "check_data (JObj kvs) = check_item (JObj kvs)"
| "check_data (JArr items) = check_items items"
| "check_data j = Inr False"

text \<open>
  The loop over the \<^verbatim>\<open>application/ld+json\<close> scripts. \<open>Inr True\<close> is \<^verbatim>\<open>return True\<close>,
  \<open>Inr False\<close> is the end of the loop, \<open>Inl e\<close> an exception that the inner handler
  (\<^verbatim>\<open>JSONDecodeError\<close>, \<^verbatim>\<open>AttributeError\<close>) does not catch.
\<close>

fun schema_scripts :: "pylib \<Rightarrow> node list \<Rightarrow> exn + bool" where
  "schema_scripts lib [] = Inr False"
| "schema_scripts lib (script # scripts) =
     (case node_string script of
        None \<Rightarrow> schema_scripts lib scripts
      | Some s \<Rightarrow>
          if s = [] then schema_scripts lib scripts
          else
            (case json_loads lib s of
               None \<Rightarrow> schema_scripts lib scripts
             | Some data \<Rightarrow>
                 (case check_data data of
                    Inl e \<Rightarrow>
                      if e = JSONDecodeError \<or> e = AttributeError then schema_scripts lib scripts
                      else Inl e
                  | Inr True \<Rightarrow> Inr True
                  | Inr False \<Rightarrow> schema_scripts lib scripts)))"

definition ld_json_scripts :: "node \<Rightarrow> node list" where
  "ld_json_scripts soup = find_all [''script''] (Some (''type'', ''application/ld+json'')) soup"

definition has_flight_reservation_schema :: "pylib \<Rightarrow> string \<Rightarrow> bool" where
  "has_flight_reservation_schema lib html =
     (let soup = bs4 lib html in
      case schema_scripts lib (ld_json_scripts soup) of
        Inl e \<Rightarrow> False
      | Inr True \<Rightarrow> True
      | Inr False \<Rightarrow>
          (case find_tag [''div''] (Some (''itemtype'', ''http://schema.org/FlightReservation'')) soup of
             Some reservation \<Rightarrow> True
           | None \<Rightarrow> False))"

definition is_confirmation_subject :: "pylib \<Rightarrow> string \<Rightarrow> bool" where
  "is_confirmation_subject lib subj =
     (let has_confirm = list_ex (\<lambda>pattern. re_search lib pattern subj) CONFIRMATION_PATTERNS;
          has_exclusion = list_ex (\<lambda>pattern. re_search lib pattern subj) EXCLUSION_PATTERNS
      in has_confirm \<and> \<not> has_exclusion)"

definition is_airline_domain :: "string \<Rightarrow> bool" where
  "is_airline_domain sender =
     (let from_lower = lower sender in list_ex (\<lambda>domain. contains domain from_lower) AIRLINE_DOMAINS)"

text \<open>
  The four markers of \<^verbatim>\<open>has_flight_markers\<close>: \<^verbatim>\<open>\b[A-Z0-9]{6}\b\<close>,
  \<^verbatim>\<open>\b[A-Z]{2}\d{1,4}\b\<close>, two or more of \<^verbatim>\<open>\b[A-Z]{3}\b\<close>, and
  \<^verbatim>\<open>(?i)(confirmation|booking|reservation|pnr).{0,20}([A-Z0-9]{5,6})\<close>.
\<close>

definition MARKER_CODE :: pattern where
  "MARKER_CODE = Pattern False
     (Then WordB (Then (Rep (In_cls (upper_letters @ digits)) 6 (Some 6)) WordB))"

definition MARKER_FLIGHT :: pattern where
  "MARKER_FLIGHT = Pattern False
     (Then WordB (Then (Rep (In_cls upper_letters) 2 (Some 2))
        (Then (Rep (In_cls digits) 1 (Some 4)) WordB)))"

definition MARKER_AIRPORT :: pattern where
  "MARKER_AIRPORT = Pattern False (Then WordB (Then (Rep (In_cls upper_letters) 3 (Some 3)) WordB))"

definition MARKER_BOOKING :: pattern where
  "MARKER_BOOKING = Pattern True
     (Then (Group (Or (Lit ''confirmation'') (Or (Lit ''booking'')
                    (Or (Lit ''reservation'') (Lit ''pnr'')))))
        (Then (Rep dot 0 (Some 20)) (Group (Rep (In_cls (upper_letters @ digits)) 5 (Some 6)))))"

definition has_flight_markers :: "pylib \<Rightarrow> string \<Rightarrow> bool" where
  "has_flight_markers lib content =
     (let confirmation_number = re_search lib MARKER_CODE content;
          flight_number_marker = re_search lib MARKER_FLIGHT content;
          airport_code = (2 \<le> length (re_findall lib MARKER_AIRPORT content));
          booking_ref = re_search lib MARKER_BOOKING content
      in 3 \<le> length (filter id [confirmation_number, flight_number_marker, airport_code, booking_ref]))"

definition classify :: "pylib \<Rightarrow> 'a email_data_scheme \<Rightarrow> bool \<times> int" where
  "classify lib email =
     (let score = 0;
          score = (if html_content email \<noteq> [] \<and> has_flight_reservation_schema lib (html_content email)
                   then score + 50 else score);
          score = (if is_airline_domain (from_email email) then score + 20 else score);
          score = (if is_confirmation_subject lib (subject email) then score + 20 else score);
          combined_content = subject email @ '' '' @ text_content email;
          score = (if has_flight_markers lib combined_content then score + 10 else score);
          is_flight = (50 \<le> score)
      in (is_flight, score))"


section \<open>Extractor (parsers/flight_parser.py)\<close>

text \<open>
  The dict \<^verbatim>\<open>data\<close> of the three strategies only ever gets the six keys below, so it is
  a record of optional values: \<open>None\<close> is a key that is not in the dict, and the empty
  dict is \<open>no_details\<close>. A value is a JSON value, since the JSON-LD branch stores what it
  finds in the markup as it is; a string is \<open>JStr\<close>.
\<close>

record flight_details =
  booking_reference :: "json option"
  flight_number :: "json option"
  departure_airport :: "json option"
  arrival_airport :: "json option"
  departure_time :: "json option"
  arrival_time :: "json option"

definition no_details :: flight_details where
  "no_details = \<lparr>booking_reference = None, flight_number = None, departure_airport = None,
                  arrival_airport = None, departure_time = None, arrival_time = None\<rparr>"

text \<open>
  How a step of a loop ends: it goes on to the next round, it returns from the function,
  or it raises. The dict \<^verbatim>\<open>data\<close> is mutated in place, so an exception keeps what was
  stored before it.
\<close>

datatype 'a flow = Next 'a | Return 'a | Raise exn 'a

text \<open>The fields taken from a \<^verbatim>\<open>reservationFor\<close> dict whose \<^verbatim>\<open>@type\<close> is \<^verbatim>\<open>Flight\<close>.\<close>

definition iata_code :: "json option \<Rightarrow> json option" where
  "iata_code airport = (case airport of Some (JObj kvs) \<Rightarrow> map_of kvs ''iataCode'' | _ \<Rightarrow> None)"

definition flight_fields :: "(string \<times> json) list \<Rightarrow> flight_details \<Rightarrow> flight_details" where
  "flight_fields flight data =
     (let data = (case map_of flight ''flightNumber'' of
                    Some v \<Rightarrow> data\<lparr>flight_number := Some v\<rparr> | None \<Rightarrow> data);
          data = (case iata_code (map_of flight ''departureAirport'') of
                    Some v \<Rightarrow> data\<lparr>departure_airport := Some v\<rparr> | None \<Rightarrow> data);
          data = (case iata_code (map_of flight ''arrivalAirport'') of
                    Some v \<Rightarrow> data\<lparr>arrival_airport := Some v\<rparr> | None \<Rightarrow> data);
          data = (case map_of flight ''departureTime'' of
                    Some v \<Rightarrow> data\<lparr>departure_time := Some v\<rparr> | None \<Rightarrow> data);
          data = (case map_of flight ''arrivalTime'' of
                    Some v \<Rightarrow> data\<lparr>arrival_time := Some v\<rparr> | None \<Rightarrow> data)
      in data)"

text \<open>
  One round of \<^verbatim>\<open>for item in items\<close>. \<^verbatim>\<open>flight.get\<close> raises \<^verbatim>\<open>AttributeError\<close> when
  \<^verbatim>\<open>reservationFor\<close> is not a dict.
\<close>

fun ld_item :: "flight_details \<Rightarrow> json \<Rightarrow> flight_details flow" where
  "ld_item data (JObj item) =
     (if map_of item ''@type'' = Some (JStr ''FlightReservation'')
      then
        (let data = (case map_of item ''reservationNumber'' of
                       Some v \<Rightarrow> data\<lparr>booking_reference := Some v\<rparr> | None \<Rightarrow> data)
         in case (case map_of item ''reservationFor'' of Some f \<Rightarrow> f | None \<Rightarrow> JObj []) of
              JObj flight \<Rightarrow>
                (let data = (if map_of flight ''@type'' = Some (JStr ''Flight'')
                             then flight_fields flight data else data)
                 in if data \<noteq> no_details then Return data else Next data)
            | _ \<Rightarrow> Raise AttributeError data)
      else Next data)"
| "ld_item data j = Next data"

fun ld_items :: "flight_details \<Rightarrow> json list \<Rightarrow> flight_details flow" where
  "ld_items data [] = Next data"
| "ld_items data (item # items) =
     (case ld_item data item of Next data' \<Rightarrow> ld_items data' items | r \<Rightarrow> r)"

text \<open>
  \<^verbatim>\<open>items = [json_data] if isinstance(json_data, dict) else json_data\<close>, then the loop
  over it: a string is walked character by character, and walking \<^verbatim>\<open>None\<close>, a number or
  a boolean raises \<^verbatim>\<open>TypeError\<close>.
\<close>

fun ld_data :: "flight_details \<Rightarrow> json \<Rightarrow> flight_details flow" where
  "ld_data data (JObj kvs) = ld_items data [JObj kvs]"
| "ld_data data (JArr items) = ld_items data items"
| "ld_data data (JStr s) = ld_items data (map (\<lambda>c. JStr [c]) s)"
| "ld_data data j = Raise TypeError data"

text \<open>
  One round of \<^verbatim>\<open>for script in scripts\<close>: the handler of the round catches
  \<^verbatim>\<open>JSONDecodeError\<close>, \<^verbatim>\<open>AttributeError\<close> and \<^verbatim>\<open>KeyError\<close> and goes on to the next script.
\<close>

definition ld_script :: "pylib \<Rightarrow> flight_details \<Rightarrow> node \<Rightarrow> flight_details flow" where
  "ld_script lib data script =
     (case node_string script of
        None \<Rightarrow> Next data
      | Some s \<Rightarrow>
          if s = [] then Next data
          else
            (case json_loads lib s of
               None \<Rightarrow> Next data
             | Some json_data \<Rightarrow>
                 (case ld_data data json_data of
                    Raise e data' \<Rightarrow>
                      if e = JSONDecodeError \<or> e = AttributeError \<or> e = KeyError
                      then Next data' else Raise e data'
                  | r \<Rightarrow> r)))"

fun ld_scripts :: "pylib \<Rightarrow> flight_details \<Rightarrow> node list \<Rightarrow> flight_details flow" where
  "ld_scripts lib data [] = Next data"
| "ld_scripts lib data (script # scripts) =
     (case ld_script lib data script of Next data' \<Rightarrow> ld_scripts lib data' scripts | r \<Rightarrow> r)"

text \<open>
  \<^verbatim>\<open>x = tag.find('meta', itemprop=prop)\<close> followed by \<^verbatim>\<open>if x and x.get('content')\<close>: the
  \<^verbatim>\<open>content\<close> of the first such \<^verbatim>\<open>meta\<close>, when it has one that is not empty.
\<close>

definition meta_content :: "node \<Rightarrow> string \<Rightarrow> string option" where
  "meta_content tag prop =
     (case find_tag [''meta''] (Some (''itemprop'', prop)) tag of
        None \<Rightarrow> None
      | Some m \<Rightarrow> (case get_attr m ''content'' of
                     None \<Rightarrow> None
                   | Some c \<Rightarrow> if c = [] then None else Some c))"

definition microdata :: "node \<Rightarrow> flight_details \<Rightarrow> flight_details" where
  "microdata soup data =
     (case find_tag [''div''] (Some (''itemtype'', ''http://schema.org/FlightReservation'')) soup of
        None \<Rightarrow> data
      | Some reservation \<Rightarrow>
          (let data = (case meta_content reservation ''reservationNumber'' of
                         Some c \<Rightarrow> data\<lparr>booking_reference := Some (JStr c)\<rparr> | None \<Rightarrow> data)
           in case find_tag [''div''] (Some (''itemtype'', ''http://schema.org/Flight'')) reservation of
                None \<Rightarrow> data
              | Some flight \<Rightarrow>
                  (let data = (case meta_content flight ''flightNumber'' of
                                 Some c \<Rightarrow> data\<lparr>flight_number := Some (JStr c)\<rparr> | None \<Rightarrow> data)
                   in case find_all [''div''] (Some (''itemtype'', ''http://schema.org/Airport'')) flight of
                        a0 # a1 # _ \<Rightarrow>
                          (let data = (case meta_content a0 ''iataCode'' of
                                         Some c \<Rightarrow> data\<lparr>departure_airport := Some (JStr c)\<rparr>
                                       | None \<Rightarrow> data);
                               data = (case meta_content a1 ''iataCode'' of
                                         Some c \<Rightarrow> data\<lparr>arrival_airport := Some (JStr c)\<rparr>
                                       | None \<Rightarrow> data)
                           in data)
                      | _ \<Rightarrow> data)))"

text \<open>\<open>Inl e\<close>: the function raises \<open>e\<close>. \<open>Inr None\<close>: it returns \<^verbatim>\<open>None\<close>.\<close>

definition parse_schema_org :: "pylib \<Rightarrow> string \<Rightarrow> exn + flight_details option" where
  "parse_schema_org lib html =
     (let soup = bs4 lib html in
      case ld_scripts lib no_details (ld_json_scripts soup) of
        Return data \<Rightarrow> Inr (Some data)
      | Raise e data \<Rightarrow> Inl e
      | Next data \<Rightarrow>
          (let data = microdata soup data in Inr (if data \<noteq> no_details then Some data else None)))"

text \<open>\<^verbatim>\<open>\b([A-Z]{3})\b\<close>, the airport code of the table and free-text strategies.\<close>

definition AIRPORT_CODE :: pattern where
  "AIRPORT_CODE = Pattern False
     (Then WordB (Then (Group (Rep (In_cls upper_letters) 3 (Some 3))) WordB))"

text \<open>One round of \<^verbatim>\<open>for row in rows\<close>.\<close>

definition table_row :: "pylib \<Rightarrow> flight_details \<Rightarrow> node \<Rightarrow> flight_details" where
  "table_row lib data row =
     (case find_all [''td'', ''th''] None row of
        c0 # c1 # _ \<Rightarrow>
          (let key = str_lower lib (str_strip lib (get_text lib c0));
               val = str_strip lib (get_text lib c1)
           in if (contains ''booking'' key \<or> contains ''confirmation'' key \<or> contains ''pnr'' key)
                 \<and> 5 \<le> length val
              then data\<lparr>booking_reference := Some (JStr val)\<rparr>
              else if contains ''flight'' key \<and> contains ''number'' key
              then data\<lparr>flight_number := Some (JStr val)\<rparr>
              else if contains ''departure'' key
              then (if contains ''airport'' key \<or> contains ''from'' key
                    then (case re_group1 lib AIRPORT_CODE val of
                            Some g \<Rightarrow> data\<lparr>departure_airport := Some (JStr g)\<rparr>
                          | None \<Rightarrow> data)
                    else data)
              else if contains ''arrival'' key \<or> contains ''destination'' key
              then (if contains ''airport'' key \<or> contains ''to'' key
                    then (case re_group1 lib AIRPORT_CODE val of
                            Some g \<Rightarrow> data\<lparr>arrival_airport := Some (JStr g)\<rparr>
                          | None \<Rightarrow> data)
                    else data)
              else data)
      | _ \<Rightarrow> data)"

definition table_keywords :: "string list" where
  "table_keywords = [''flight'', ''booking'', ''departure'', ''arrival'']"

definition has_keyword :: "pylib \<Rightarrow> node \<Rightarrow> bool" where
  "has_keyword lib table =
     (let table_text = str_lower lib (get_text lib table)
      in list_ex (\<lambda>keyword. contains keyword table_text) table_keywords)"

definition table_data :: "pylib \<Rightarrow> node \<Rightarrow> flight_details" where
  "table_data lib table = foldl (table_row lib) no_details (find_all [''tr''] None table)"

fun tables_loop :: "pylib \<Rightarrow> node list \<Rightarrow> flight_details option" where
  "tables_loop lib [] = None"
| "tables_loop lib (table # tables) =
     (if has_keyword lib table
      then (let data = table_data lib table
            in if data \<noteq> no_details then Some data else tables_loop lib tables)
      else tables_loop lib tables)"

definition parse_html_table :: "pylib \<Rightarrow> string \<Rightarrow> flight_details option" where
  "parse_html_table lib html = tables_loop lib (find_all [''table''] None (bs4 lib html))"

text \<open>
  The patterns of \<^verbatim>\<open>extract_flight_info_regex\<close>:
  \<^verbatim>\<open>(?:booking|confirmation|reference|pnr)[:\s]+([A-Z0-9]{5,7})\<close> with IGNORECASE,
  \<^verbatim>\<open>\b([A-Z]{2}\s?\d{3,4})\b\<close>, and \<^verbatim>\<open>\b([A-Z]{3})\s*(?:to|ARROW|-|DASH)\s*([A-Z]{3})\b\<close>,
  where ARROW is the rightwards arrow U+2192 and DASH the en dash U+2013.
\<close>

definition BOOKING_REF :: pattern where
  "BOOKING_REF = Pattern True
     (Then (Or (Lit ''booking'') (Or (Lit ''confirmation'') (Or (Lit ''reference'') (Lit ''pnr''))))
        (Then (Rep (In_cls (CHR '':'' # whitespace)) 1 None)
           (Group (Rep (In_cls (upper_letters @ digits)) 5 (Some 7)))))"

definition FLIGHT_NO :: pattern where
  "FLIGHT_NO = Pattern False
     (Then WordB
        (Then (Group (Then (Rep (In_cls upper_letters) 2 (Some 2))
                        (Then (Rep (In_cls whitespace) 0 (Some 1))
                           (Rep (In_cls digits) 3 (Some 4)))))
           WordB))"

definition ROUTE :: pattern where
  "ROUTE = Pattern False
     (Then WordB
        (Then (Group (Rep (In_cls upper_letters) 3 (Some 3)))
           (Then (Rep (In_cls whitespace) 0 None)
              (Then (Or (Lit ''to'')
                       (Or (Wide ''2192'') (Or (Lit ''-'') (Wide ''2013''))))
                 (Then (Rep (In_cls whitespace) 0 None)
                    (Then (Group (Rep (In_cls upper_letters) 3 (Some 3))) WordB))))))"

definition false_positives :: "string list" where
  "false_positives = [''THE'', ''AND'', ''FOR'', ''YOU'', ''NOT'', ''ARE'', ''WAS'', ''BUT'']"

definition extract_flight_info_regex :: "pylib \<Rightarrow> string \<Rightarrow> flight_details option" where
  "extract_flight_info_regex lib text =
     (let data = no_details;
          data = (case re_group1 lib BOOKING_REF text of
                    Some g \<Rightarrow> data\<lparr>booking_reference := Some (JStr (upper g))\<rparr> | None \<Rightarrow> data);
          data = (case re_group1 lib FLIGHT_NO text of
                    Some g \<Rightarrow> data\<lparr>flight_number := Some (JStr (filter (\<lambda>c. c \<noteq> CHR '' '') g))\<rparr>
                  | None \<Rightarrow> data);
          data = (case re_group2 lib ROUTE text of
                    Some (g1, g2) \<Rightarrow> data\<lparr>departure_airport := Some (JStr g1),
                                           arrival_airport := Some (JStr g2)\<rparr>
                  | None \<Rightarrow> data);
          data = (if departure_airport data = None
                  then (case filter (\<lambda>c. c \<notin> set false_positives) (re_findall lib AIRPORT_CODE text) of
                          c0 # c1 # _ \<Rightarrow> data\<lparr>departure_airport := Some (JStr c0),
                                                arrival_airport := Some (JStr c1)\<rparr>
                        | _ \<Rightarrow> data)
                  else data)
      in if data \<noteq> no_details then Some data else None)"

text \<open>
  \<^verbatim>\<open>FlightParser.parse\<close>: each strategy runs inside \<^verbatim>\<open>try\<close>, and an exception only
  moves the cascade on. \<open>truthy\<close> is \<^verbatim>\<open>if data:\<close> on what a strategy returned.
\<close>

definition truthy :: "flight_details option \<Rightarrow> bool" where
  "truthy r = (case r of None \<Rightarrow> False | Some data \<Rightarrow> data \<noteq> no_details)"

definition parse :: "pylib \<Rightarrow> 'a email_data_scheme \<Rightarrow> flight_details option" where
  "parse lib email =
     (let html = html_content email;
          txt = text_content email;
          strategy1 = (if html \<noteq> []
                       then (case parse_schema_org lib html of
                               Inr data \<Rightarrow> if truthy data then data else None
                             | Inl e \<Rightarrow> None)
                       else None)
      in case strategy1 of
           Some data \<Rightarrow> Some data
         | None \<Rightarrow>
             (let strategy2 = (if html \<noteq> []
                               then (let data = parse_html_table lib html
                                     in if truthy data then data else None)
                               else None)
              in case strategy2 of
                   Some data \<Rightarrow> Some data
                 | None \<Rightarrow>
                     (let combined_text =
                            (if html \<noteq> [] then get_text lib (bs4 lib html) @ '' '' @ txt else txt);
                          data = extract_flight_info_regex lib combined_text
                      in if truthy data then data else None)))"


section \<open>State store (state/state_manager.py) and Phase 1 (main.py)\<close>

text \<open>
  The two tables the phases use. \<^verbatim>\<open>processing_state\<close> only ever gets rows appended;
  \<^verbatim>\<open>emails\<close> is keyed by the message id. A status is the text of the \<^verbatim>\<open>status\<close> column.
  Every column of \<^verbatim>\<open>emails\<close> is declared \<^verbatim>\<open>TEXT\<close>: it holds a text, or \<open>None\<close> for SQL
  NULL.
\<close>

record processing_event =
  ev_message_id :: string
  ev_phase :: string
  ev_status :: string
  ev_error_message :: "string option"

record email_row =
  row_message_id :: string
  row_thread_id :: "string option"
  row_subject :: "string option"
  row_from_email :: "string option"
  row_msg_date :: "string option"
  row_pnr :: "string option"
  row_flight_number :: "string option"
  row_departure_airport :: "string option"
  row_arrival_airport :: "string option"

record database =
  emails :: "email_row list"
  processing_state :: "processing_event list"













section \<open>A reference instance of the libraries\<close>

text \<open>
  To run the model on concrete emails, the record of library functions needs an
  instance. The regular expressions get a small backtracking matcher over the syntax
  trees, with the priorities of \<^verbatim>\<open>re\<close>: the left alternative first, the longest
  repetition first, the leftmost start first. A state of the matcher is the character
  before the position (for \<^verbatim>\<open>\b\<close>), the rest of the text, and the groups closed so far
  (no pattern of the source nests groups, so they close in the order they are numbered).
  A character beyond 255 matches no character of a text of the model. The word
  characters below 256 are the ASCII letters, the digits, the underscore, and the
  letters and numbers of the upper half: 0xAA, 0xB2, 0xB3, 0xB5, 0xB9, 0xBA, 0xBC to
  0xBE, and 0xC0 to 0xFF without the two signs 0xD7 and 0xF7.
\<close>

type_synonym mstate = "char option \<times> string \<times> string list"

definition lower_letters :: string where
  "lower_letters = ''abcdefghijklmnopqrstuvwxyz''"

definition latin_capitals :: string where
  "latin_capitals =
     [CHR 0xC0, CHR 0xC1, CHR 0xC2, CHR 0xC3, CHR 0xC4, CHR 0xC5, CHR 0xC6, CHR 0xC7,
      CHR 0xC8, CHR 0xC9, CHR 0xCA, CHR 0xCB, CHR 0xCC, CHR 0xCD, CHR 0xCE, CHR 0xCF,
      CHR 0xD0, CHR 0xD1, CHR 0xD2, CHR 0xD3, CHR 0xD4, CHR 0xD5, CHR 0xD6,
      CHR 0xD8, CHR 0xD9, CHR 0xDA, CHR 0xDB, CHR 0xDC, CHR 0xDD, CHR 0xDE]"

definition latin_smalls :: string where
  "latin_smalls =
     [CHR 0xE0, CHR 0xE1, CHR 0xE2, CHR 0xE3, CHR 0xE4, CHR 0xE5, CHR 0xE6, CHR 0xE7,
      CHR 0xE8, CHR 0xE9, CHR 0xEA, CHR 0xEB, CHR 0xEC, CHR 0xED, CHR 0xEE, CHR 0xEF,
      CHR 0xF0, CHR 0xF1, CHR 0xF2, CHR 0xF3, CHR 0xF4, CHR 0xF5, CHR 0xF6,
      CHR 0xF8, CHR 0xF9, CHR 0xFA, CHR 0xFB, CHR 0xFC, CHR 0xFD, CHR 0xFE]"

definition latin_word :: string where
  "latin_word =
     [CHR 0xAA, CHR 0xB2, CHR 0xB3, CHR 0xB5, CHR 0xB9, CHR 0xBA, CHR 0xBC, CHR 0xBD, CHR 0xBE]
     @ latin_capitals @ [CHR 0xDF] @ latin_smalls @ [CHR 0xFF]"

definition is_word :: "char \<Rightarrow> bool" where
  "is_word c = (c \<in> set (upper_letters @ lower_letters @ digits @ ''_'' @ latin_word))"

fun cls_has :: "bool \<Rightarrow> cls \<Rightarrow> char \<Rightarrow> bool" where
  "cls_has ic (In_cls cs) c =
     (c \<in> set cs \<or> (ic \<and> (lower_char c \<in> set cs \<or> upper_char c \<in> set cs)))"
| "cls_has ic (Not_cls cs) c =
     (\<not> (c \<in> set cs \<or> (ic \<and> (lower_char c \<in> set cs \<or> upper_char c \<in> set cs))))"

fun lit_match :: "bool \<Rightarrow> string \<Rightarrow> char option \<Rightarrow> string \<Rightarrow> (char option \<times> string) option" where
  "lit_match ic [] p r = Some (p, r)"
| "lit_match ic (a # as) p [] = None"
| "lit_match ic (a # as) p (c # cs) =
     (if a = c \<or> (ic \<and> lower_char a = lower_char c) then lit_match ic as (Some c) cs else None)"

definition at_boundary :: "char option \<Rightarrow> string \<Rightarrow> bool" where
  "at_boundary p r =
     ((case p of None \<Rightarrow> False | Some c \<Rightarrow> is_word c)
      \<noteq> (case r of [] \<Rightarrow> False | c # _ \<Rightarrow> is_word c))"

definition after :: "nat \<Rightarrow> char option \<Rightarrow> string \<Rightarrow> char option" where
  "after k p r = (if k = 0 then p else Some (last (take k r)))"

fun run :: "bool \<Rightarrow> rx \<Rightarrow> mstate \<Rightarrow> mstate list" where
  "run ic (Lit s) (p, r, caps) =
     (case lit_match ic s p r of None \<Rightarrow> [] | Some (p', r') \<Rightarrow> [(p', r', caps)])"
| "run ic (Wide h) (p, r, caps) = []"
| "run ic (Rep c m n) (p, r, caps) =
     (let longest = length (takeWhile (cls_has ic c) (case n of None \<Rightarrow> r | Some n' \<Rightarrow> take n' r))
      in map (\<lambda>k. (after k p r, drop k r, caps)) (rev [m ..< Suc longest]))"
| "run ic (Then a b) st = concat (map (run ic b) (run ic a st))"
| "run ic (Or a b) st = run ic a st @ run ic b st"
| "run ic (Group a) (p, r, caps) =
     map (\<lambda>(p', r', caps'). (p', r', caps' @ [take (length r - length r') r]))
       (run ic a (p, r, caps))"
| "run ic WordB (p, r, caps) = (if at_boundary p r then [(p, r, caps)] else [])"

text \<open>The first match that starts at the position: its text, its groups, and what follows.\<close>

definition match_at :: "bool \<Rightarrow> rx \<Rightarrow> char option \<Rightarrow> string \<Rightarrow> (string \<times> string list \<times> string) option" where
  "match_at ic r p s =
     (case run ic r (p, s, []) of
        [] \<Rightarrow> None
      | (p', s', caps) # _ \<Rightarrow> Some (take (length s - length s') s, caps, s'))"

fun search_at :: "bool \<Rightarrow> rx \<Rightarrow> char option \<Rightarrow> string \<Rightarrow> (string \<times> string list \<times> string) option" where
  "search_at ic r p [] = match_at ic r p []"
| "search_at ic r p (c # cs) =
     (case match_at ic r p (c # cs) of
        Some m \<Rightarrow> Some m
      | None \<Rightarrow> search_at ic r (Some c) cs)"

text \<open>
  \<^verbatim>\<open>findall\<close>: the matches from left to right, each search starting where the match
  before it ended (one character further after an empty match); an item is the first
  group when the pattern has one, the whole match otherwise. The first argument bounds
  the number of rounds; the length of the text plus one is enough.
\<close>

fun findall_from :: "nat \<Rightarrow> bool \<Rightarrow> rx \<Rightarrow> char option \<Rightarrow> string \<Rightarrow> string list" where
  "findall_from 0 ic r p s = []"
| "findall_from (Suc n) ic r p s =
     (case match_at ic r p s of
        None \<Rightarrow> (case s of [] \<Rightarrow> [] | c # cs \<Rightarrow> findall_from n ic r (Some c) cs)
      | Some (m, caps, s') \<Rightarrow>
          (case caps of [] \<Rightarrow> m | g # _ \<Rightarrow> g)
          # (if m = []
             then (case s of [] \<Rightarrow> [] | c # cs \<Rightarrow> findall_from n ic r (Some c) cs)
             else findall_from n ic r (Some (last m)) s'))"

definition ref_search :: "pattern \<Rightarrow> string \<Rightarrow> string list option" where
  "ref_search pat s =
     (case pat of Pattern ic r \<Rightarrow>
        (case search_at ic r None s of None \<Rightarrow> None | Some (m, caps, s') \<Rightarrow> Some caps))"

definition ref_findall :: "pattern \<Rightarrow> string \<Rightarrow> string list" where
  "ref_findall pat s = (case pat of Pattern ic r \<Rightarrow> findall_from (Suc (length s)) ic r None s)"

text \<open>
  \<^verbatim>\<open>get_text\<close> as version 4.12 of the library has it: a tag has its interesting string
  classes, those of its name when the name is one of \<^verbatim>\<open>script\<close>, \<^verbatim>\<open>style\<close>, \<^verbatim>\<open>template\<close>,
  \<^verbatim>\<open>rt\<close>, \<^verbatim>\<open>rp\<close>, and \<^verbatim>\<open>NavigableString\<close> and \<^verbatim>\<open>CData\<close> otherwise; the text of the tag
  is made of the strings below it that are of exactly such a class, in document order.
\<close>

definition interesting_string_types :: "string \<Rightarrow> string_class list" where
  "interesting_string_types name =
     (if name = ''script'' then [Script]
      else if name = ''style'' then [Stylesheet]
      else if name = ''template'' then [TemplateString]
      else if name = ''rt'' then [RubyTextString]
      else if name = ''rp'' then [RubyParenthesisString]
      else [NavigableString, CData])"

fun all_strings :: "string_class list \<Rightarrow> node \<Rightarrow> string" where
  "all_strings types (Text k s) = (if k \<in> set types then s else [])"
| "all_strings types (Element name attrs contents) = concat (map (all_strings types) contents)"

definition ref_get_text :: "node \<Rightarrow> string" where
  "ref_get_text tag =
     (case tag of
        Text k s \<Rightarrow> s
      | Element name attrs contents \<Rightarrow> all_strings (interesting_string_types name) tag)"

text \<open>
  \<^verbatim>\<open>str.strip()\<close> and \<^verbatim>\<open>str.lower()\<close> on characters below 256: the first takes the white
  space off both ends, the second moves \<^verbatim>\<open>A-Z\<close> and the capital letters 0xC0 to 0xDE
  (the multiplication sign 0xD7 is none) to their small letters, 32 places up.
\<close>

definition ref_strip :: "string \<Rightarrow> string" where
  "ref_strip s =
     rev (dropWhile (\<lambda>c. c \<in> set whitespace) (rev (dropWhile (\<lambda>c. c \<in> set whitespace) s)))"

definition ref_lower :: "string \<Rightarrow> string" where
  "ref_lower s =
     map (\<lambda>c. case map_of (zip latin_capitals latin_smalls) c of
                 Some l \<Rightarrow> l | None \<Rightarrow> lower_char c) s"

text \<open>
  \<^verbatim>\<open>sqlite3\<close> on a \<^verbatim>\<open>TEXT\<close> column: an integer of 64 bits is stored as its decimal text,
  a larger one raises \<^verbatim>\<open>OverflowError\<close>; a boolean is the integer 1 or 0; a list or a
  dict raises. The texts of the exceptions are those of Python 3.11. (The numbers of
  this model are integers.)
\<close>

fun show_nat :: "nat \<Rightarrow> string" where
  "show_nat n = (if n < 10 then [digits ! n] else show_nat (n div 10) @ [digits ! (n mod 10)])"

declare show_nat.simps [simp del]

definition show_int :: "int \<Rightarrow> string" where
  "show_int i = (if i < 0 then ''-'' @ show_nat (nat (- i)) else show_nat (nat i))"

definition ref_sql_bind :: "nat \<Rightarrow> json \<Rightarrow> string + string option" where
  "ref_sql_bind i v =
     (case v of
        JNull \<Rightarrow> Inr None
      | JStr s \<Rightarrow> Inr (Some s)
      | JBool b \<Rightarrow> Inr (Some (if b then ''1'' else ''0''))
      | JNum n \<Rightarrow>
          if - (2 ^ 63) \<le> n \<and> n < 2 ^ 63 then Inr (Some (show_int n))
          else Inl ''Python int too large to convert to SQLite INTEGER''
      | JArr xs \<Rightarrow>
          Inl (''Error binding parameter '' @ show_nat i @ '': type 'list' is not supported'')
      | JObj kvs \<Rightarrow>
          Inl (''Error binding parameter '' @ show_nat i @ '': type 'dict' is not supported''))"

text \<open>
  The two parsers are given by tables: \<open>docs\<close> lists the HTML texts of an example with
  the tree \<^verbatim>\<open>lxml\<close> builds for each, \<open>jsons\<close> the JSON texts with their values. A text
  that is not in \<open>docs\<close> parses to the empty document, one that is not in \<open>jsons\<close> is
  not JSON.
\<close>

definition ref_lib :: "(string \<times> node) list \<Rightarrow> (string \<times> json) list \<Rightarrow> pylib" where
  "ref_lib docs jsons =
     \<lparr>bs4 = (\<lambda>html. case map_of docs html of Some t \<Rightarrow> t | None \<Rightarrow> Element ''[document]'' [] []),
      get_text = ref_get_text,
      str_strip = ref_strip,
      str_lower = ref_lower,
      json_loads = map_of jsons,
      re_search = (\<lambda>pat s. ref_search pat s \<noteq> None),
      re_group1 = (\<lambda>pat s. case ref_search pat s of Some (g1 # _) \<Rightarrow> Some g1 | _ \<Rightarrow> None),
      re_group2 = (\<lambda>pat s. case ref_search pat s of Some (g1 # g2 # _) \<Rightarrow> Some (g1, g2) | _ \<Rightarrow> None),
      re_findall = ref_findall,
      sql_bind = ref_sql_bind\<rparr>"







section \<open>What a body declares, in the words of the specification\<close>

text \<open>
  The reservation objects that the JSON-LD blocks of a document declare, in document
  order: for each \<^verbatim>\<open>application/ld+json\<close> script whose text is JSON, the top-level object,
  or the items of the top-level array.
\<close>

definition ld_items_of :: "json \<Rightarrow> json list" where
  "ld_items_of j = (case j of JObj kvs \<Rightarrow> [j] | JArr items \<Rightarrow> items | _ \<Rightarrow> [])"

definition script_items :: "pylib \<Rightarrow> node \<Rightarrow> json list" where
  "script_items lib script =
     (case node_string script of
        None \<Rightarrow> []
      | Some s \<Rightarrow>
          if s = [] then []
          else (case json_loads lib s of None \<Rightarrow> [] | Some j \<Rightarrow> ld_items_of j))"

definition declared_items :: "pylib \<Rightarrow> node \<Rightarrow> json list" where
  "declared_items lib soup = concat (map (script_items lib) (ld_json_scripts soup))"

text \<open>
  An object that declares type FlightReservation with a status containing
  \<^verbatim>\<open>Confirmed\<close>; and one that declares the type with a status that is \<^verbatim>\<open>null\<close>, a number
  or a boolean.
\<close>

fun declares_confirmed :: "json \<Rightarrow> bool" where
  "declares_confirmed (JObj kvs) =
     (map_of kvs ''@type'' = Some (JStr ''FlightReservation'')
      \<and> (case map_of kvs ''reservationStatus'' of
            Some (JStr st) \<Rightarrow> contains ''Confirmed'' st | _ \<Rightarrow> False))"
| "declares_confirmed j = False"

fun unreadable_status :: "json \<Rightarrow> bool" where
  "unreadable_status (JObj kvs) =
     (map_of kvs ''@type'' = Some (JStr ''FlightReservation'')
      \<and> (case map_of kvs ''reservationStatus'' of
            Some JNull \<Rightarrow> True | Some (JBool b) \<Rightarrow> True | Some (JNum n) \<Rightarrow> True | _ \<Rightarrow> False))"
| "unreadable_status j = False"

definition microdata_reservation :: "node \<Rightarrow> node option" where
  "microdata_reservation soup =
     find_tag [''div''] (Some (''itemtype'', ''http://schema.org/FlightReservation'')) soup"

section \<open>Example emails\<close>

text \<open>
  Each example gives the text of an HTML body and, beside it, the tree that \<^verbatim>\<open>lxml\<close>
  builds for it and the values of its JSON texts. The bodies are complete documents
  without white space between the tags, so the tree has no other nodes.
\<close>

definition document :: "node list \<Rightarrow> node list \<Rightarrow> node" where
  "document head_nodes body_nodes =
     Element ''[document]'' []
       [Element ''html'' [] [Element ''head'' [] head_nodes, Element ''body'' [] body_nodes]]"

definition html_document :: "string \<Rightarrow> string \<Rightarrow> string" where
  "html_document head_text body_text =
     ''<html><head>'' @ head_text @ ''</head><body>'' @ body_text @ ''</body></html>''"

definition ld_script_text :: "string \<Rightarrow> string" where
  \<open>ld_script_text s = ''<script type="application/ld+json">'' @ s @ ''</script>''\<close>

definition ld_script_node :: "string \<Rightarrow> node" where
  "ld_script_node s = Element ''script'' [(''type'', ''application/ld+json'')] [Text Script s]"

definition empty_email :: email_data where
  "empty_email = \<lparr>ed_message_id = ''m1'', thread_id = None, subject = [], from_email = [],
                   msg_date = [], html_content = [], text_content = []\<rparr>"

text \<open>A confirmed reservation in JSON-LD, alone in the body.\<close>

definition confirmed_json :: string where
  \<open>confirmed_json =
     ''{"@type":"FlightReservation","reservationStatus":"http://schema.org/Confirmed"}''\<close>

definition confirmed_value :: json where
  "confirmed_value =
     JObj [(''@type'', JStr ''FlightReservation''),
           (''reservationStatus'', JStr ''http://schema.org/Confirmed'')]"

definition confirmed_html :: string where
  "confirmed_html = html_document (ld_script_text confirmed_json) []"

definition confirmed_lib :: pylib where
  "confirmed_lib =
     ref_lib [(confirmed_html, document [ld_script_node confirmed_json] [])]
             [(confirmed_json, confirmed_value)]"

text \<open>
  The same reservation after a block that declares a FlightReservation whose status is
  \<^verbatim>\<open>null\<close>.
\<close>

definition null_status_json :: string where
  \<open>null_status_json = ''{"@type":"FlightReservation","reservationStatus":null}''\<close>

definition null_status_value :: json where
  "null_status_value =
     JObj [(''@type'', JStr ''FlightReservation''), (''reservationStatus'', JNull)]"

definition two_blocks_html :: string where
  "two_blocks_html =
     html_document (ld_script_text null_status_json @ ld_script_text confirmed_json) []"

definition two_blocks_lib :: pylib where
  "two_blocks_lib =
     ref_lib [(two_blocks_html,
               document [ld_script_node null_status_json, ld_script_node confirmed_json] [])]
             [(null_status_json, null_status_value), (confirmed_json, confirmed_value)]"

text \<open>A cancelled reservation in microdata: the status does not contain \<^verbatim>\<open>Confirmed\<close>.\<close>

definition cancelled_html :: string where
  \<open>cancelled_html =
     html_document []
       (''<div itemscope itemtype="http://schema.org/FlightReservation">''
        @ ''<link itemprop="reservationStatus" href="http://schema.org/ReservationCancelled"/>''
        @ ''</div>'')\<close>

definition cancelled_lib :: pylib where
  "cancelled_lib =
     ref_lib [(cancelled_html,
               document []
                 [Element ''div''
                    [(''itemscope'', []), (''itemtype'', ''http://schema.org/FlightReservation'')]
                    [Element ''link''
                       [(''itemprop'', ''reservationStatus''),
                        (''href'', ''http://schema.org/ReservationCancelled'')] []]])]
             []"

text \<open>
  The reservation of the specification's scenario in JSON-LD, and a table that gives
  another booking reference and flight number.
\<close>

definition scenario_json :: string where
  \<open>scenario_json =
     ''{"@type":"FlightReservation","reservationNumber":"ABC123",''
     @ ''"reservationFor":{"@type":"Flight","flightNumber":"UA456",''
     @ ''"departureAirport":{"iataCode":"SFO"},"arrivalAirport":{"iataCode":"JFK"}}}''\<close>

definition scenario_value :: json where
  "scenario_value =
     JObj [(''@type'', JStr ''FlightReservation''),
           (''reservationNumber'', JStr ''ABC123''),
           (''reservationFor'',
              JObj [(''@type'', JStr ''Flight''),
                    (''flightNumber'', JStr ''UA456''),
                    (''departureAirport'', JObj [(''iataCode'', JStr ''SFO'')]),
                    (''arrivalAirport'', JObj [(''iataCode'', JStr ''JFK'')])])]"

definition scenario_details :: flight_details where
  "scenario_details =
     \<lparr>booking_reference = Some (JStr ''ABC123''), flight_number = Some (JStr ''UA456''),
      departure_airport = Some (JStr ''SFO''), arrival_airport = Some (JStr ''JFK''),
      departure_time = None, arrival_time = None\<rparr>"

definition table_text :: "(string \<times> string) list \<Rightarrow> string" where
  "table_text rows =
     ''<table>''
     @ concat (map (\<lambda>(k, v). ''<tr><td>'' @ k @ ''</td><td>'' @ v @ ''</td></tr>'') rows)
     @ ''</table>''"

definition table_node :: "(string \<times> string) list \<Rightarrow> node" where
  "table_node rows =
     Element ''table'' []
       (map (\<lambda>(k, v). Element ''tr'' []
                         [Element ''td'' [] [Text NavigableString k],
                          Element ''td'' [] [Text NavigableString v]])
          rows)"

definition other_rows :: "(string \<times> string) list" where
  "other_rows = [(''Booking Reference'', ''XYZ789''), (''Flight Number'', ''DL100'')]"

definition other_details :: flight_details where
  "other_details =
     \<lparr>booking_reference = Some (JStr ''XYZ789''), flight_number = Some (JStr ''DL100''),
      departure_airport = None, arrival_airport = None,
      departure_time = None, arrival_time = None\<rparr>"

definition both_html :: string where
  "both_html = html_document (ld_script_text scenario_json) (table_text other_rows)"

definition table_only_html :: string where
  "table_only_html = html_document [] (table_text other_rows)"

definition text_only_html :: string where
  "text_only_html = html_document [] ''<p>Confirmation: ABC123, Flight UA456, SFO to JFK</p>''"

text \<open>A body whose only text is a style sheet, with a route in a class name.\<close>

definition style_only_html :: string where
  "style_only_html = html_document ''<style>.SFO-JFK{}</style>'' []"

definition cascade_lib :: pylib where
  "cascade_lib =
     ref_lib [(both_html, document [ld_script_node scenario_json] [table_node other_rows]),
              (table_only_html, document [] [table_node other_rows]),
              (text_only_html,
               document []
                 [Element ''p'' []
                    [Text NavigableString ''Confirmation: ABC123, Flight UA456, SFO to JFK'']]),
              (style_only_html,
               document [Element ''style'' [] [Text Stylesheet ''.SFO-JFK{}'']] [])]
             [(scenario_json, scenario_value)]"

text \<open>
  Two tables: the first has the keyword \<^verbatim>\<open>flight\<close> in its only cell and no row of two
  cells, the second has a booking reference.
\<close>

definition two_tables_html :: string where
  "two_tables_html =
     html_document []
       (''<table><tr><td>Flight details</td></tr></table>''
        @ table_text [(''Booking Reference'', ''ABC123'')])"

definition heading_table :: node where
  "heading_table =
     Element ''table'' []
       [Element ''tr'' [] [Element ''td'' [] [Text NavigableString ''Flight details'']]]"

text \<open>
  Three tables: the first has a keyword only in a script, and a row that would give a
  booking reference; the second has the keyword \<^verbatim>\<open>booking\<close> and a cell of five no-break
  spaces; the third has a booking reference.
\<close>

definition scripted_table :: node where
  "scripted_table =
     Element ''table'' []
       [Element ''tr'' []
          [Element ''td'' []
             [Text NavigableString ''PNR'',
              Element ''script'' [] [Text Script ''var flight = 1;'']],
           Element ''td'' [] [Text NavigableString ''QQQ111'']]]"

definition blank_cell :: string where
  "blank_cell = [CHR 0xA0, CHR 0xA0, CHR 0xA0, CHR 0xA0, CHR 0xA0]"

definition three_tables_html :: string where
  "three_tables_html =
     html_document []
       (''<table><tr><td>PNR<script>var flight = 1;</script></td><td>QQQ111</td></tr></table>''
        @ table_text [(''Booking Reference'', ''&nbsp;&nbsp;&nbsp;&nbsp;&nbsp;'')]
        @ table_text [(''Booking Reference'', ''XYZ789'')])"

definition two_tables_lib :: pylib where
  "two_tables_lib =
     ref_lib [(two_tables_html,
               document [] [heading_table, table_node [(''Booking Reference'', ''ABC123'')]]),
              (three_tables_html,
               document []
                 [scripted_table,
                  table_node [(''Booking Reference'', blank_cell)],
                  table_node [(''Booking Reference'', ''XYZ789'')]])]
             []"






text \<open>A field that is absent or a string that is not empty.\<close>

fun absent_or_nonempty :: "json option \<Rightarrow> bool" where
  "absent_or_nonempty None = True"
| "absent_or_nonempty (Some (JStr s)) = (s \<noteq> [])"
| "absent_or_nonempty (Some j) = False"



















text \<open>A booking reference that is absent or a string of at least five characters.\<close>

fun absent_or_long :: "json option \<Rightarrow> bool" where
  "absent_or_long None = True"
| "absent_or_long (Some (JStr s)) = (5 \<le> length s)"
| "absent_or_long (Some j) = False"




section \<open>Properties of the deduplicator\<close>

lemma unique_loop_acc:
  "unique_loop ratio self (seen, acc) es =
     (fst (unique_loop ratio self (seen, []) es), acc @ snd (unique_loop ratio self (seen, []) es))"
proof (induction es arbitrary: seen acc)
  case Nil
  show ?case by simp
next
  case (Cons e es)
  have a: "\<And>s x. unique_loop ratio self (s, acc @ [x]) es =
      (fst (unique_loop ratio self (s, []) es), acc @ x # snd (unique_loop ratio self (s, []) es))"
    using Cons.IH[of _ "acc @ [_]"] by simp
  have b: "\<And>s x. unique_loop ratio self (s, [x]) es =
      (fst (unique_loop ratio self (s, []) es), x # snd (unique_loop ratio self (s, []) es))"
    using Cons.IH[of _ "[_]"] by simp
  show ?case
    by (simp add: a b Cons.IH[of seen acc] split: option.split)
qed

lemma unique_loop_step:
  "snd (unique_loop ratio self (seen, []) (e # es)) =
     (case email_pnr_upper e of
        None \<Rightarrow> e # snd (unique_loop ratio self (seen, []) es)
      | Some p \<Rightarrow>
          if p = [] then e # snd (unique_loop ratio self (seen, []) es)
          else if \<exists>s \<in> seen. are_pnrs_duplicate ratio self (Some p) (Some s)
          then snd (unique_loop ratio self (seen, []) es)
          else e # snd (unique_loop ratio self (insert p seen, []) es))"
  using unique_loop_acc[of ratio self _ "[e]" es]
  by (simp split: option.split)

text \<open>
  Filtering the survivors again, from the same set of seen references, keeps them all:
  each survivor meets exactly the seen references it met the first time.
\<close>

lemma unique_loop_idem:
  "snd (unique_loop ratio self (seen, []) (snd (unique_loop ratio self (seen, []) es))) =
   snd (unique_loop ratio self (seen, []) es)"
proof (induction es arbitrary: seen)
  case Nil
  show ?case by simp
next
  case (Cons e es)
  show ?case
  proof (cases "email_pnr_upper e")
    case None
    then show ?thesis by (simp add: unique_loop_step Cons.IH del: unique_loop.simps)
  next
    case (Some p)
    then show ?thesis by (simp add: unique_loop_step Cons.IH del: unique_loop.simps)
  qed
qed

text \<open>
  C5. Two non-empty references that are equal after \<^verbatim>\<open>upper()\<close> are duplicates, whatever
  the similarity function and the threshold; a pair with an absent (\<open>None\<close>) or empty
  side is never a duplicate.
\<close>

theorem are_pnrs_duplicate_equal_or_absent:
  "(a \<noteq> [] \<and> b \<noteq> [] \<and> upper a = upper b
      \<longrightarrow> are_pnrs_duplicate ratio self (Some a) (Some b))
   \<and> (p1 = None \<or> p1 = Some [] \<or> p2 = None \<or> p2 = Some []
      \<longrightarrow> \<not> are_pnrs_duplicate ratio self p1 p2)"
  by (auto simp: are_pnrs_duplicate_def split: option.splits)

theorem are_pnrs_duplicate_equal_or_absent_witness:
  "''ABC123'' \<noteq> [] \<and> ''abc123'' \<noteq> [] \<and> upper ''ABC123'' = upper ''abc123''
   \<and> are_pnrs_duplicate lcs_ratio default_deduplicator (Some ''ABC123'') (Some ''abc123'')
   \<and> \<not> are_pnrs_duplicate lcs_ratio default_deduplicator (Some []) (Some ''ABC123'')"
  using are_pnrs_duplicate_equal_or_absent
          [of "''ABC123''" "''abc123''" lcs_ratio default_deduplicator "Some []" "Some ''ABC123''"]
  by (simp add: upper_def upper_char_def)

text \<open>
  C6. Unique-filtering is idempotent: \<^verbatim>\<open>get_unique_emails\<close> applied to its own output
  returns that output, for every list of records, similarity function and threshold.
\<close>

theorem get_unique_emails_idempotent:
  "get_unique_emails ratio self (get_unique_emails ratio self xs) =
   get_unique_emails ratio self xs"
  unfolding get_unique_emails_def by (rule unique_loop_idem)

theorem get_unique_emails_idempotent_witness:
  "get_unique_emails lcs_ratio default_deduplicator
     (get_unique_emails lcs_ratio default_deduplicator
        [\<lparr>message_id = ''1'', pnr = Some ''ABC123''\<rparr>, \<lparr>message_id = ''2'', pnr = Some ''abc123''\<rparr>,
         \<lparr>message_id = ''3'', pnr = Some ''XYZ789''\<rparr>, \<lparr>message_id = ''4'', pnr = None\<rparr>])
   = get_unique_emails lcs_ratio default_deduplicator
        [\<lparr>message_id = ''1'', pnr = Some ''ABC123''\<rparr>, \<lparr>message_id = ''2'', pnr = Some ''abc123''\<rparr>,
         \<lparr>message_id = ''3'', pnr = Some ''XYZ789''\<rparr>, \<lparr>message_id = ''4'', pnr = None\<rparr>]"
  by (rule get_unique_emails_idempotent)

text \<open>
  C9. Five records with the references ABC123, ABC123, XYZ789, XYZ789, DEF456 give
  exactly two groups, \<open>[m1, m2]\<close> under ABC123 and \<open>[m3, m4]\<close> under XYZ789, and no group
  for DEF456, whenever the similarity of each two distinct references among the three
  is below the threshold (as it is for the library's ratio and the default 95); and
  every group that \<^verbatim>\<open>find_duplicates\<close> returns, on any input, has at least two members.
\<close>

theorem find_duplicates_five_records:
  "(ratio ''XYZ789'' ''ABC123'' < fuzzy_threshold self
    \<and> ratio ''DEF456'' ''ABC123'' < fuzzy_threshold self
    \<and> ratio ''DEF456'' ''XYZ789'' < fuzzy_threshold self
    \<longrightarrow> find_duplicates ratio self
          [\<lparr>message_id = m1, pnr = Some ''ABC123''\<rparr>, \<lparr>message_id = m2, pnr = Some ''ABC123''\<rparr>,
           \<lparr>message_id = m3, pnr = Some ''XYZ789''\<rparr>, \<lparr>message_id = m4, pnr = Some ''XYZ789''\<rparr>,
           \<lparr>message_id = m5, pnr = Some ''DEF456''\<rparr>]
        = [(''ABC123'', [m1, m2]), (''XYZ789'', [m3, m4])])
   \<and> (\<forall>g \<in> set (find_duplicates ratio self xs). 2 \<le> length (snd g))"
proof (intro conjI impI)
  assume "ratio ''XYZ789'' ''ABC123'' < fuzzy_threshold self
    \<and> ratio ''DEF456'' ''ABC123'' < fuzzy_threshold self
    \<and> ratio ''DEF456'' ''XYZ789'' < fuzzy_threshold self"
  then show "find_duplicates ratio self
          [\<lparr>message_id = m1, pnr = Some ''ABC123''\<rparr>, \<lparr>message_id = m2, pnr = Some ''ABC123''\<rparr>,
           \<lparr>message_id = m3, pnr = Some ''XYZ789''\<rparr>, \<lparr>message_id = m4, pnr = Some ''XYZ789''\<rparr>,
           \<lparr>message_id = m5, pnr = Some ''DEF456''\<rparr>]
        = [(''ABC123'', [m1, m2]), (''XYZ789'', [m3, m4])]"
    by (simp add: find_duplicates_def are_pnrs_duplicate_def upper_def upper_char_def dict_has_def)
next
  show "\<forall>g \<in> set (find_duplicates ratio self xs). 2 \<le> length (snd g)"
    by (auto simp: find_duplicates_def Let_def)
qed

theorem find_duplicates_five_records_witness:
  "lcs_ratio ''XYZ789'' ''ABC123'' < fuzzy_threshold default_deduplicator
   \<and> lcs_ratio ''DEF456'' ''ABC123'' < fuzzy_threshold default_deduplicator
   \<and> lcs_ratio ''DEF456'' ''XYZ789'' < fuzzy_threshold default_deduplicator
   \<and> find_duplicates lcs_ratio default_deduplicator
          [\<lparr>message_id = ''1'', pnr = Some ''ABC123''\<rparr>, \<lparr>message_id = ''2'', pnr = Some ''ABC123''\<rparr>,
           \<lparr>message_id = ''3'', pnr = Some ''XYZ789''\<rparr>, \<lparr>message_id = ''4'', pnr = Some ''XYZ789''\<rparr>,
           \<lparr>message_id = ''5'', pnr = Some ''DEF456''\<rparr>]
        = [(''ABC123'', [''1'', ''2'']), (''XYZ789'', [''3'', ''4''])]"
proof -
  have h: "lcs_ratio ''XYZ789'' ''ABC123'' < fuzzy_threshold default_deduplicator
   \<and> lcs_ratio ''DEF456'' ''ABC123'' < fuzzy_threshold default_deduplicator
   \<and> lcs_ratio ''DEF456'' ''XYZ789'' < fuzzy_threshold default_deduplicator"
    by (simp add: lcs_ratio_def round_half_even_def default_deduplicator_def)
  from h find_duplicates_five_records
         [of lcs_ratio default_deduplicator "''1''" "''2''" "''3''" "''4''" "''5''" "[]"]
  show ?thesis by blast
qed


section \<open>Properties of the state store and of the Phase 1 sweep\<close>














section \<open>Properties of the classifier\<close>

lemma check_items_append:
  "check_items (xs @ ys) = (case check_items xs of Inr False \<Rightarrow> check_items ys | r \<Rightarrow> r)"
  by (induction xs) (auto split: sum.splits bool.splits)

lemma check_item_TypeError: "check_item x = Inl e \<Longrightarrow> e = TypeError"
  by (cases x) (auto split: if_splits option.splits)

lemma check_items_TypeError: "check_items xs = Inl e \<Longrightarrow> e = TypeError"
  by (induction xs) (auto split: sum.splits bool.splits dest: check_item_TypeError)

lemma check_data_items: "check_data j = check_items (ld_items_of j)"
  by (cases j) (auto simp: ld_items_of_def split: sum.splits bool.splits if_splits option.splits)

text \<open>
  The loop over the scripts is one scan of the objects they declare: it stops at the
  first object that passes the test or raises.
\<close>

lemma schema_scripts_items:
  "schema_scripts lib scripts = check_items (concat (map (script_items lib) scripts))"
proof (induction scripts)
  case Nil
  show ?case by simp
next
  case (Cons s ss)
  show ?case
  proof (cases "script_items lib s = []")
    case True
    then show ?thesis using Cons.IH
      by (auto simp: script_items_def check_data_items
               split: option.splits if_splits sum.splits bool.splits)
  next
    case False
    then obtain str j where s: "node_string s = Some str" "str \<noteq> []"
        "json_loads lib str = Some j" "script_items lib s = ld_items_of j"
      by (auto simp: script_items_def split: option.splits if_splits)
    show ?thesis using s Cons.IH
      by (auto simp: check_items_append check_data_items split: sum.splits bool.splits
               dest: check_items_TypeError)
  qed
qed

lemma check_item_confirmed: "declares_confirmed x \<Longrightarrow> check_item x = Inr True"
  by (cases x) (auto split: option.splits json.splits)

lemma check_item_raise: "check_item x = Inl e \<Longrightarrow> unreadable_status x"
  by (cases x) (auto split: if_splits option.splits json.splits)

lemma check_items_no_raise:
  "\<forall>x \<in> set xs. \<not> unreadable_status x \<Longrightarrow> \<exists>b. check_items xs = Inr b"
  by (induction xs) (auto split: sum.splits bool.splits dest: check_item_raise)

lemma check_items_found:
  assumes "declares_confirmed item" "\<forall>x \<in> set pre. \<not> unreadable_status x"
  shows "check_items (pre @ item # post) = Inr True"
proof -
  from check_items_no_raise[OF assms(2)] obtain b where b: "check_items pre = Inr b" by blast
  show ?thesis
    using b check_item_confirmed[OF assms(1)] by (cases b) (simp_all add: check_items_append)
qed

lemma has_schema_json:
  assumes "declared_items lib (bs4 lib html) = pre @ item # post"
    "declares_confirmed item" "\<forall>x \<in> set pre. \<not> unreadable_status x"
  shows "has_flight_reservation_schema lib html"
  using check_items_found[OF assms(2,3), of post] assms(1)
  by (simp add: has_flight_reservation_schema_def Let_def schema_scripts_items declared_items_def)

lemma has_schema_microdata:
  assumes "\<forall>x \<in> set (declared_items lib (bs4 lib html)). \<not> unreadable_status x"
    "microdata_reservation (bs4 lib html) \<noteq> None"
  shows "has_flight_reservation_schema lib html"
proof -
  from check_items_no_raise[OF assms(1)] obtain b where
    "check_items (declared_items lib (bs4 lib html)) = Inr b" by blast
  then show ?thesis using assms(2)
    by (cases b) (auto simp: has_flight_reservation_schema_def Let_def schema_scripts_items
                             declared_items_def microdata_reservation_def)
qed

lemma classify_schema_decisive:
  "html_content email \<noteq> [] \<Longrightarrow> has_flight_reservation_schema lib (html_content email) \<Longrightarrow>
   fst (classify lib email) \<and> 50 \<le> snd (classify lib email)"
  by (simp add: classify_def Let_def)

text \<open>
  When the signal is decisive. \<^verbatim>\<open>classify\<close> returns \<^verbatim>\<open>is_flight = True\<close> and a score of at
  least 50, whatever the other fields, when the body is not empty and
  \<^item> its JSON-LD blocks declare a FlightReservation whose status is a string containing
    \<^verbatim>\<open>Confirmed\<close>, and no object declared before it is a FlightReservation whose status is
    \<^verbatim>\<open>null\<close>, a number or a boolean; or
  \<^item> it has a microdata FlightReservation \<^verbatim>\<open>div\<close>, and no declared object is a
    FlightReservation whose status is \<^verbatim>\<open>null\<close>, a number or a boolean.
\<close>

theorem classify_confirmed_markup_decisive:
  "(html_content email \<noteq> []
      \<and> declared_items lib (bs4 lib (html_content email)) = pre @ item # post
      \<and> declares_confirmed item \<and> (\<forall>x \<in> set pre. \<not> unreadable_status x)
    \<longrightarrow> fst (classify lib email) \<and> 50 \<le> snd (classify lib email))
   \<and> (html_content email \<noteq> []
      \<and> microdata_reservation (bs4 lib (html_content email)) \<noteq> None
      \<and> (\<forall>x \<in> set (declared_items lib (bs4 lib (html_content email))). \<not> unreadable_status x)
    \<longrightarrow> fst (classify lib email) \<and> 50 \<le> snd (classify lib email))"
  using has_schema_json[of lib "html_content email" pre item post]
        has_schema_microdata[of lib "html_content email"]
        classify_schema_decisive[of email lib]
  by blast

theorem classify_confirmed_markup_decisive_witness:
  "html_content (empty_email\<lparr>html_content := confirmed_html\<rparr>) \<noteq> []
   \<and> declared_items confirmed_lib (bs4 confirmed_lib confirmed_html) = [] @ confirmed_value # []
   \<and> declares_confirmed confirmed_value
   \<and> fst (classify confirmed_lib (empty_email\<lparr>html_content := confirmed_html\<rparr>))
   \<and> 50 \<le> snd (classify confirmed_lib (empty_email\<lparr>html_content := confirmed_html\<rparr>))
   \<and> html_content (empty_email\<lparr>html_content := cancelled_html\<rparr>) \<noteq> []
   \<and> microdata_reservation (bs4 cancelled_lib cancelled_html) \<noteq> None
   \<and> declared_items cancelled_lib (bs4 cancelled_lib cancelled_html) = []
   \<and> fst (classify cancelled_lib (empty_email\<lparr>html_content := cancelled_html\<rparr>))
   \<and> 50 \<le> snd (classify cancelled_lib (empty_email\<lparr>html_content := cancelled_html\<rparr>))"
proof -
  let ?e = "empty_email\<lparr>html_content := confirmed_html\<rparr>"
  let ?c = "empty_email\<lparr>html_content := cancelled_html\<rparr>"
  have h1: "html_content ?e \<noteq> []" by code_simp
  have h1': "html_content ?e = confirmed_html" by simp
  have h2: "declared_items confirmed_lib (bs4 confirmed_lib confirmed_html) = [] @ confirmed_value # []"
    by code_simp
  have h3: "declares_confirmed confirmed_value" by code_simp
  have h4: "html_content ?c \<noteq> []" by code_simp
  have h4': "html_content ?c = cancelled_html" by simp
  have h5: "microdata_reservation (bs4 cancelled_lib cancelled_html) \<noteq> None" by code_simp
  have h6: "declared_items cancelled_lib (bs4 cancelled_lib cancelled_html) = []" by code_simp
  from classify_confirmed_markup_decisive[of ?e confirmed_lib "[]" confirmed_value "[]"] h1 h2 h3
  have a: "fst (classify confirmed_lib ?e) \<and> 50 \<le> snd (classify confirmed_lib ?e)"
    unfolding h1' by simp
  from classify_confirmed_markup_decisive[of ?c cancelled_lib "[]" confirmed_value "[]"] h4 h5 h6
  have b: "fst (classify cancelled_lib ?c) \<and> 50 \<le> snd (classify cancelled_lib ?c)"
    unfolding h4' by simp
  from h1 h2 h3 h4 h5 h6 a b show ?thesis by blast
qed

text \<open>
  C3. The claim says that confirmed FlightReservation markup in the body is decisive by
  itself: score at least 50 and \<^verbatim>\<open>is_flight = True\<close>, the other fields being empty. The
  code misses a case. On a body whose second JSON-LD block is a confirmed
  FlightReservation, after a block that declares a FlightReservation with the status
  \<^verbatim>\<open>null\<close>, the test \<^verbatim>\<open>'Confirmed' in status\<close> raises \<^verbatim>\<open>TypeError\<close> on the first block. The
  handler of the loop, which goes on to the next script after \<^verbatim>\<open>JSONDecodeError\<close> and
  \<^verbatim>\<open>AttributeError\<close>, does not catch it; the check ends in its outer handler, and the
  email is classified as no flight, with score 0.
\<close>

theorem classify_misses_confirmed_markup_after_null_status:
  "subject (empty_email\<lparr>html_content := two_blocks_html\<rparr>) = []
   \<and> from_email (empty_email\<lparr>html_content := two_blocks_html\<rparr>) = []
   \<and> text_content (empty_email\<lparr>html_content := two_blocks_html\<rparr>) = []
   \<and> declared_items two_blocks_lib (bs4 two_blocks_lib two_blocks_html)
       = [null_status_value, confirmed_value]
   \<and> declares_confirmed confirmed_value
   \<and> classify two_blocks_lib (empty_email\<lparr>html_content := two_blocks_html\<rparr>) = (False, 0)"
proof -
  have a: "declared_items two_blocks_lib (bs4 two_blocks_lib two_blocks_html)
       = [null_status_value, confirmed_value]" by code_simp
  have b: "declares_confirmed confirmed_value" by code_simp
  have c: "classify two_blocks_lib (empty_email\<lparr>html_content := two_blocks_html\<rparr>) = (False, 0)"
    by code_simp
  show ?thesis using a b c by (simp add: empty_email_def)
qed

text \<open>
  C4. The claim says that FlightReservation markup whose status does not contain
  \<^verbatim>\<open>Confirmed\<close> does not fire the 50-point signal, in either form. The JSON-LD branch
  tests the status; the microdata branch returns \<^verbatim>\<open>True\<close> as soon as the \<^verbatim>\<open>div\<close> is there.
  On a body whose only markup is a microdata FlightReservation with the status
  \<^verbatim>\<open>ReservationCancelled\<close>, the signal fires and the email is classified as a flight
  confirmation with score 50.
\<close>

theorem schema_signal_fires_on_cancelled_microdata:
  "\<not> contains ''Confirmed'' ''http://schema.org/ReservationCancelled''
   \<and> declared_items cancelled_lib (bs4 cancelled_lib cancelled_html) = []
   \<and> has_flight_reservation_schema cancelled_lib cancelled_html
   \<and> classify cancelled_lib (empty_email\<lparr>html_content := cancelled_html\<rparr>) = (True, 50)"
proof -
  have a: "\<not> contains ''Confirmed'' ''http://schema.org/ReservationCancelled''" by code_simp
  have b: "declared_items cancelled_lib (bs4 cancelled_lib cancelled_html) = []" by code_simp
  have c: "has_flight_reservation_schema cancelled_lib cancelled_html" by code_simp
  have d: "classify cancelled_lib (empty_email\<lparr>html_content := cancelled_html\<rparr>) = (True, 50)"
    by code_simp
  show ?thesis using a b c d by blast
qed

text \<open>
  C8. The subject signal fires exactly when some confirmation pattern matches the
  subject and no exclusion pattern does. The score is the sum of the four signals, the
  subject's being 20 or 0; when an exclusion pattern matches, the subject signal is off
  and the score is the sum of the other three, whatever the confirmation patterns find.
\<close>

theorem subject_signal_needs_confirmation_and_no_exclusion:
  "(is_confirmation_subject lib subj \<longleftrightarrow>
      (\<exists>pat \<in> set CONFIRMATION_PATTERNS. re_search lib pat subj)
      \<and> (\<forall>pat \<in> set EXCLUSION_PATTERNS. \<not> re_search lib pat subj))
   \<and> snd (classify lib email) =
       (if html_content email \<noteq> [] \<and> has_flight_reservation_schema lib (html_content email)
        then 50 else 0)
       + (if is_airline_domain (from_email email) then 20 else 0)
       + (if is_confirmation_subject lib (subject email) then 20 else 0)
       + (if has_flight_markers lib (subject email @ '' '' @ text_content email) then 10 else 0)
   \<and> ((\<exists>pat \<in> set EXCLUSION_PATTERNS. re_search lib pat (subject email))
       \<longrightarrow> \<not> is_confirmation_subject lib (subject email)
         \<and> snd (classify lib email) =
             (if html_content email \<noteq> [] \<and> has_flight_reservation_schema lib (html_content email)
              then 50 else 0)
             + (if is_airline_domain (from_email email) then 20 else 0)
             + (if has_flight_markers lib (subject email @ '' '' @ text_content email)
                then 10 else 0))"
proof -
  have a: "is_confirmation_subject lib s \<longleftrightarrow>
      (\<exists>pat \<in> set CONFIRMATION_PATTERNS. re_search lib pat s)
      \<and> (\<forall>pat \<in> set EXCLUSION_PATTERNS. \<not> re_search lib pat s)" for s
    by (simp add: is_confirmation_subject_def Let_def list_ex_iff)
  have b: "snd (classify lib email) =
       (if html_content email \<noteq> [] \<and> has_flight_reservation_schema lib (html_content email)
        then 50 else 0)
       + (if is_airline_domain (from_email email) then 20 else 0)
       + (if is_confirmation_subject lib (subject email) then 20 else 0)
       + (if has_flight_markers lib (subject email @ '' '' @ text_content email) then 10 else 0)"
    by (simp add: classify_def Let_def)
  show ?thesis
    using a[of subj] a[of "subject email"] b by auto
qed

text \<open>
  The subject \<^verbatim>\<open>Flight Confirmation - Cancelled\<close> from an airline's address: a
  confirmation pattern and an exclusion pattern both match, and the score is the 20
  points of the sender alone.
\<close>

theorem subject_signal_needs_confirmation_and_no_exclusion_witness:
  "(\<exists>pat \<in> set EXCLUSION_PATTERNS.
       re_search (ref_lib [] []) pat
         (subject (empty_email\<lparr>subject := ''Flight Confirmation - Cancelled'',
                               from_email := ''noreply@united.com''\<rparr>)))
   \<and> (\<exists>pat \<in> set CONFIRMATION_PATTERNS.
       re_search (ref_lib [] []) pat ''Flight Confirmation - Cancelled'')
   \<and> \<not> is_confirmation_subject (ref_lib [] []) ''Flight Confirmation - Cancelled''
   \<and> snd (classify (ref_lib [] [])
             (empty_email\<lparr>subject := ''Flight Confirmation - Cancelled'',
                           from_email := ''noreply@united.com''\<rparr>)) = 20"
proof -
  let ?e = "empty_email\<lparr>subject := ''Flight Confirmation - Cancelled'',
                         from_email := ''noreply@united.com''\<rparr>"
  have s: "subject ?e = ''Flight Confirmation - Cancelled''" by simp
  have h: "\<exists>pat \<in> set EXCLUSION_PATTERNS. re_search (ref_lib [] []) pat (subject ?e)"
    unfolding s by code_simp
  have c: "\<exists>pat \<in> set CONFIRMATION_PATTERNS.
       re_search (ref_lib [] []) pat ''Flight Confirmation - Cancelled''"
    by code_simp
  have v: "(if html_content ?e \<noteq> [] \<and> has_flight_reservation_schema (ref_lib [] []) (html_content ?e)
              then 50 else 0)
             + (if is_airline_domain (from_email ?e) then 20 else 0)
             + (if has_flight_markers (ref_lib [] []) (subject ?e @ '' '' @ text_content ?e)
                then 10 else 0) = (20 :: int)"
    by code_simp
  from subject_signal_needs_confirmation_and_no_exclusion
         [of "ref_lib [] []" "''Flight Confirmation - Cancelled''" ?e] h
  have "\<not> is_confirmation_subject (ref_lib [] []) (subject ?e)
    \<and> snd (classify (ref_lib [] []) ?e) =
             (if html_content ?e \<noteq> [] \<and> has_flight_reservation_schema (ref_lib [] []) (html_content ?e)
              then 50 else 0)
             + (if is_airline_domain (from_email ?e) then 20 else 0)
             + (if has_flight_markers (ref_lib [] []) (subject ?e @ '' '' @ text_content ?e)
                then 10 else 0)"
    by blast
  with v s have "\<not> is_confirmation_subject (ref_lib [] []) ''Flight Confirmation - Cancelled''
    \<and> snd (classify (ref_lib [] []) ?e) = 20"
    by simp
  with h c show ?thesis by blast
qed

section \<open>Properties of the reference matcher\<close>

















section \<open>Properties of the extractor\<close>

lemma ld_item_Return: "ld_item data j = Return d \<Longrightarrow> d \<noteq> no_details"
proof (cases j)
  case (JObj item)
  assume r: "ld_item data j = Return d"
  show ?thesis
  proof (cases "map_of item ''@type'' = Some (JStr ''FlightReservation'')")
    case False
    with r JObj show ?thesis by simp
  next
    case True
    show ?thesis
    proof (cases "map_of item ''reservationFor''")
      case None
      with r JObj True show ?thesis
        by (simp add: Let_def split: if_splits)
    next
      case (Some f)
      with r JObj True show ?thesis
        by (cases f) (simp_all add: Let_def split: if_splits)
    qed
  qed
qed simp_all

lemma ld_items_Return: "ld_items data items = Return d \<Longrightarrow> d \<noteq> no_details"
  by (induction items arbitrary: data) (auto split: flow.splits dest: ld_item_Return)

lemma ld_data_Return: "ld_data data j = Return d \<Longrightarrow> d \<noteq> no_details"
  by (cases j) (auto dest: ld_items_Return simp del: ld_items.simps ld_item.simps)

lemma ld_script_Return: "ld_script lib data script = Return d \<Longrightarrow> d \<noteq> no_details"
  by (auto simp: ld_script_def split: option.splits if_splits flow.splits dest: ld_data_Return)

lemma ld_scripts_Return: "ld_scripts lib data scripts = Return d \<Longrightarrow> d \<noteq> no_details"
  by (induction scripts arbitrary: data) (auto split: flow.splits dest: ld_script_Return)

lemma parse_schema_org_Some: "parse_schema_org lib html = Inr (Some d) \<Longrightarrow> d \<noteq> no_details"
  by (auto simp: parse_schema_org_def Let_def split: flow.splits if_splits dest: ld_scripts_Return)

lemma tables_loop_Some: "tables_loop lib tables = Some d \<Longrightarrow> d \<noteq> no_details"
  by (induction tables) (auto simp: Let_def split: if_splits)

lemma parse_html_table_Some: "parse_html_table lib html = Some d \<Longrightarrow> d \<noteq> no_details"
  by (auto simp: parse_html_table_def dest: tables_loop_Some)

lemma extract_flight_info_regex_Some:
  "extract_flight_info_regex lib txt = Some d \<Longrightarrow> d \<noteq> no_details"
  by (auto simp: extract_flight_info_regex_def Let_def split: if_splits)

lemma truthy_regex: "(if truthy (extract_flight_info_regex lib txt) then extract_flight_info_regex lib txt else None)
   = extract_flight_info_regex lib txt"
  by (cases "extract_flight_info_regex lib txt") (auto simp: truthy_def dest: extract_flight_info_regex_Some)

text \<open>
  C2. The cascade returns what the first strategy that yields a field returns, and
  nothing else: the structured-markup result whenever that strategy yields one; else
  the table result whenever the table strategy yields one; else whatever the free-text
  strategy gives on the body's text (what \<^verbatim>\<open>get_text\<close> gives for the document) followed
  by the plain text. Without an HTML body only the free-text strategy runs, on the plain
  text.
\<close>

theorem parse_first_success_wins:
  "(html_content email \<noteq> [] \<and> parse_schema_org lib (html_content email) = Inr (Some d)
      \<longrightarrow> parse lib email = Some d)
   \<and> (html_content email \<noteq> [] \<and> (\<forall>d'. parse_schema_org lib (html_content email) \<noteq> Inr (Some d'))
       \<and> parse_html_table lib (html_content email) = Some d
      \<longrightarrow> parse lib email = Some d)
   \<and> (html_content email \<noteq> [] \<and> (\<forall>d'. parse_schema_org lib (html_content email) \<noteq> Inr (Some d'))
       \<and> parse_html_table lib (html_content email) = None
      \<longrightarrow> parse lib email =
            extract_flight_info_regex lib
              (get_text lib (bs4 lib (html_content email)) @ '' '' @ text_content email))
   \<and> (html_content email = []
      \<longrightarrow> parse lib email = extract_flight_info_regex lib (text_content email))"
proof (intro conjI impI)
  assume "html_content email \<noteq> [] \<and> parse_schema_org lib (html_content email) = Inr (Some d)"
  then show "parse lib email = Some d"
    using parse_schema_org_Some[of lib "html_content email" d]
    by (simp add: parse_def Let_def truthy_def)
next
  assume a: "html_content email \<noteq> [] \<and> (\<forall>d'. parse_schema_org lib (html_content email) \<noteq> Inr (Some d'))
       \<and> parse_html_table lib (html_content email) = Some d"
  then have s1: "(case parse_schema_org lib (html_content email) of
                    Inr data \<Rightarrow> if truthy data then data else None | Inl e \<Rightarrow> None) = None"
    by (auto split: sum.splits simp: truthy_def split: option.splits)
  from a show "parse lib email = Some d"
    using parse_html_table_Some[of lib "html_content email" d]
    by (simp add: parse_def Let_def s1 truthy_def)
next
  assume a: "html_content email \<noteq> [] \<and> (\<forall>d'. parse_schema_org lib (html_content email) \<noteq> Inr (Some d'))
       \<and> parse_html_table lib (html_content email) = None"
  then have s1: "(case parse_schema_org lib (html_content email) of
                    Inr data \<Rightarrow> if truthy data then data else None | Inl e \<Rightarrow> None) = None"
    by (auto split: sum.splits simp: truthy_def split: option.splits)
  from a show "parse lib email =
            extract_flight_info_regex lib
              (get_text lib (bs4 lib (html_content email)) @ '' '' @ text_content email)"
    by (simp add: parse_def Let_def s1 truthy_regex)
next
  assume "html_content email = []"
  then show "parse lib email = extract_flight_info_regex lib (text_content email)"
    by (simp add: parse_def Let_def truthy_regex)
qed

text \<open>
  A body with the scenario's reservation in JSON-LD and a table that says otherwise;
  the same table alone; the reservation as a sentence in a paragraph; the sentence as
  plain text without a body; and a body whose only text is a style sheet, which is no
  text of the body.
\<close>

theorem parse_first_success_wins_witness:
  "html_content (empty_email\<lparr>html_content := both_html\<rparr>) \<noteq> []
   \<and> parse_schema_org cascade_lib both_html = Inr (Some scenario_details)
   \<and> parse_html_table cascade_lib both_html = Some other_details
   \<and> parse cascade_lib (empty_email\<lparr>html_content := both_html\<rparr>) = Some scenario_details
   \<and> parse_schema_org cascade_lib table_only_html = Inr None
   \<and> parse_html_table cascade_lib table_only_html = Some other_details
   \<and> parse cascade_lib (empty_email\<lparr>html_content := table_only_html\<rparr>) = Some other_details
   \<and> parse_schema_org cascade_lib text_only_html = Inr None
   \<and> parse_html_table cascade_lib text_only_html = None
   \<and> parse cascade_lib (empty_email\<lparr>html_content := text_only_html\<rparr>) = Some scenario_details
   \<and> parse cascade_lib
        (empty_email\<lparr>text_content := ''Confirmation: ABC123, Flight UA456, SFO to JFK''\<rparr>)
       = Some scenario_details
   \<and> parse_schema_org cascade_lib style_only_html = Inr None
   \<and> parse_html_table cascade_lib style_only_html = None
   \<and> get_text cascade_lib (bs4 cascade_lib style_only_html) = []
   \<and> parse cascade_lib (empty_email\<lparr>html_content := style_only_html\<rparr>) = None"
proof -
  let ?e5 = "empty_email\<lparr>html_content := style_only_html\<rparr>"
  have n5: "html_content ?e5 \<noteq> []" by code_simp
  have s5: "parse_schema_org cascade_lib style_only_html = Inr None" by code_simp
  have t5: "parse_html_table cascade_lib style_only_html = None" by code_simp
  have g5: "get_text cascade_lib (bs4 cascade_lib style_only_html) = []" by code_simp
  have r5: "extract_flight_info_regex cascade_lib
              (get_text cascade_lib (bs4 cascade_lib (html_content ?e5)) @ '' '' @ text_content ?e5)
            = None" by code_simp
  have p5: "parse cascade_lib ?e5 = None"
    using parse_first_success_wins[of ?e5 cascade_lib other_details] n5 s5 t5 r5 by simp
  let ?e1 = "empty_email\<lparr>html_content := both_html\<rparr>"
  let ?e2 = "empty_email\<lparr>html_content := table_only_html\<rparr>"
  let ?e3 = "empty_email\<lparr>html_content := text_only_html\<rparr>"
  let ?e4 = "empty_email\<lparr>text_content := ''Confirmation: ABC123, Flight UA456, SFO to JFK''\<rparr>"
  have n1: "html_content ?e1 \<noteq> []" by code_simp
  have n2: "html_content ?e2 \<noteq> []" by code_simp
  have n3: "html_content ?e3 \<noteq> []" by code_simp
  have n4: "html_content ?e4 = []" by code_simp
  have s1: "parse_schema_org cascade_lib both_html = Inr (Some scenario_details)" by code_simp
  have t1: "parse_html_table cascade_lib both_html = Some other_details" by code_simp
  have s2: "parse_schema_org cascade_lib table_only_html = Inr None" by code_simp
  have t2: "parse_html_table cascade_lib table_only_html = Some other_details" by code_simp
  have s3: "parse_schema_org cascade_lib text_only_html = Inr None" by code_simp
  have t3: "parse_html_table cascade_lib text_only_html = None" by code_simp
  have r3: "extract_flight_info_regex cascade_lib
              (get_text cascade_lib (bs4 cascade_lib (html_content ?e3)) @ '' '' @ text_content ?e3)
            = Some scenario_details" by code_simp
  have r4: "extract_flight_info_regex cascade_lib (text_content ?e4) = Some scenario_details"
    by code_simp
  have p1: "parse cascade_lib ?e1 = Some scenario_details"
    using parse_first_success_wins[of ?e1 cascade_lib scenario_details] n1 s1 by simp
  have p2: "parse cascade_lib ?e2 = Some other_details"
    using parse_first_success_wins[of ?e2 cascade_lib other_details] n2 s2 t2 by simp
  have p3: "parse cascade_lib ?e3 = Some scenario_details"
    using parse_first_success_wins[of ?e3 cascade_lib other_details] n3 s3 t3 r3 by simp
  have p4: "parse cascade_lib ?e4 = Some scenario_details"
    using parse_first_success_wins[of ?e4 cascade_lib other_details] n4 r4 by simp
  from n1 s1 t1 p1 s2 t2 p2 s3 t3 p3 p4 s5 t5 g5 p5 show ?thesis by blast
qed

lemma tables_loop_first:
  "tables_loop lib tables =
     (case filter (\<lambda>t. has_keyword lib t \<and> table_data lib t \<noteq> no_details) tables of
        [] \<Rightarrow> None
      | t # _ \<Rightarrow> Some (table_data lib t))"
  by (induction tables) (auto simp: Let_def)


text \<open>
  C10, as the code has it. Tabular extraction walks the tables in document order and
  returns the fields of the first table that has a keyword in its text (what
  \<^verbatim>\<open>get_text\<close> gives for the table, in lower case) and yields at least one field; a table
  with a keyword that yields no field is passed over, and the result is no data only
  when no table with a keyword yields a field.
\<close>

theorem parse_html_table_first_yielding_table:
  "parse_html_table lib html =
     (case filter (\<lambda>t. has_keyword lib t \<and> table_data lib t \<noteq> no_details)
             (find_all [''table''] None (bs4 lib html)) of
        [] \<Rightarrow> None
      | t # _ \<Rightarrow> Some (table_data lib t))"
  unfolding parse_html_table_def by (rule tables_loop_first)

text \<open>
  The two tables of the counterexample below; and three tables of which the first has
  its keyword in a script only, the second a cell of no-break spaces, and the third
  gives the result.
\<close>

theorem parse_html_table_first_yielding_table_witness:
  "parse_html_table two_tables_lib two_tables_html =
     Some (table_data two_tables_lib (table_node [(''Booking Reference'', ''ABC123'')]))
   \<and> find_all [''table''] None (bs4 two_tables_lib three_tables_html)
       = [scripted_table, table_node [(''Booking Reference'', blank_cell)],
          table_node [(''Booking Reference'', ''XYZ789'')]]
   \<and> \<not> has_keyword two_tables_lib scripted_table
   \<and> has_keyword two_tables_lib (table_node [(''Booking Reference'', blank_cell)])
   \<and> table_data two_tables_lib (table_node [(''Booking Reference'', blank_cell)]) = no_details
   \<and> parse_html_table two_tables_lib three_tables_html
       = Some (no_details\<lparr>booking_reference := Some (JStr ''XYZ789'')\<rparr>)"
proof -
  have a: "(case filter (\<lambda>t. has_keyword two_tables_lib t \<and> table_data two_tables_lib t \<noteq> no_details)
             (find_all [''table''] None (bs4 two_tables_lib two_tables_html)) of
        [] \<Rightarrow> None
      | t # _ \<Rightarrow> Some (table_data two_tables_lib t))
     = Some (table_data two_tables_lib (table_node [(''Booking Reference'', ''ABC123'')]))"
    by code_simp
  have b: "find_all [''table''] None (bs4 two_tables_lib three_tables_html)
       = [scripted_table, table_node [(''Booking Reference'', blank_cell)],
          table_node [(''Booking Reference'', ''XYZ789'')]]" by code_simp
  have c: "\<not> has_keyword two_tables_lib scripted_table" by code_simp
  have d: "has_keyword two_tables_lib (table_node [(''Booking Reference'', blank_cell)])"
    by code_simp
  have e: "table_data two_tables_lib (table_node [(''Booking Reference'', blank_cell)])
            = no_details" by code_simp
  have f: "(case filter (\<lambda>t. has_keyword two_tables_lib t \<and> table_data two_tables_lib t \<noteq> no_details)
             (find_all [''table''] None (bs4 two_tables_lib three_tables_html)) of
        [] \<Rightarrow> None
      | t # _ \<Rightarrow> Some (table_data two_tables_lib t))
     = Some (no_details\<lparr>booking_reference := Some (JStr ''XYZ789'')\<rparr>)"
    by code_simp
  have p1: "parse_html_table two_tables_lib two_tables_html =
     Some (table_data two_tables_lib (table_node [(''Booking Reference'', ''ABC123'')]))"
    using parse_html_table_first_yielding_table[of two_tables_lib two_tables_html] a by simp
  have p2: "parse_html_table two_tables_lib three_tables_html
       = Some (no_details\<lparr>booking_reference := Some (JStr ''XYZ789'')\<rparr>)"
    using parse_html_table_first_yielding_table[of two_tables_lib three_tables_html] f
    by simp
  from p1 b c d e p2 show ?thesis by blast
qed

text \<open>
  C10, as it is stated, fails: the first table with a keyword is the heading table,
  it yields no field, and the result is the booking reference of the table after it.
\<close>

theorem parse_html_table_later_table_counterexample:
  "find_all [''table''] None (bs4 two_tables_lib two_tables_html)
     = [heading_table, table_node [(''Booking Reference'', ''ABC123'')]]
   \<and> has_keyword two_tables_lib heading_table
   \<and> table_data two_tables_lib heading_table = no_details
   \<and> parse_html_table two_tables_lib two_tables_html
       = Some (no_details\<lparr>booking_reference := Some (JStr ''ABC123'')\<rparr>)"
proof -
  have a: "find_all [''table''] None (bs4 two_tables_lib two_tables_html)
     = [heading_table, table_node [(''Booking Reference'', ''ABC123'')]]" by code_simp
  have b: "has_keyword two_tables_lib heading_table" by code_simp
  have c: "table_data two_tables_lib heading_table = no_details" by code_simp
  have d: "parse_html_table two_tables_lib two_tables_html
       = Some (no_details\<lparr>booking_reference := Some (JStr ''ABC123'')\<rparr>)" by code_simp
  from a b c d show ?thesis by blast
qed







lemma absent_or_long_nonempty: "absent_or_long v \<Longrightarrow> absent_or_nonempty v"
  by (cases v rule: absent_or_long.cases) auto






lemma upper_nonempty: "g \<noteq> [] \<Longrightarrow> upper g \<noteq> []"
  by (simp add: upper_def)






end
